theory Spec2Isabelle
  imports Main "HOL-Library.Sublist"
begin

section \<open>The syntax tree the parser hands over\<close>

text \<open>
  \<^verbatim>\<open>src/crawler/ast_ts.ts\<close> holds two copies of the engine (lines 1-420 and 420-842).
  Both consume the ts-morph library, which is not part of the repository: a node of
  its tree is modelled by what the accessors called in the source return for it.

  The kinds the source tells apart are constructors of their own; every other kind
  is \<open>OtherKind\<close> with its kind name.
\<close>

datatype SyntaxKind =
    EndOfFileToken | SemicolonToken | CommaToken
  | ClassDeclaration | FunctionDeclaration | MethodDeclaration | Constructor
  | InterfaceDeclaration | VariableDeclaration | PropertyDeclaration
  | Identifier | StringLiteral | NumericLiteral | TrueKeyword | FalseKeyword
  | OtherKind string

text \<open>\<^verbatim>\<open>node.getKindName()\<close>: the name of the kind in the \<^verbatim>\<open>SyntaxKind\<close> enumeration.\<close>

fun getKindName :: "SyntaxKind \<Rightarrow> string" where
  "getKindName EndOfFileToken = ''EndOfFileToken''"
| "getKindName SemicolonToken = ''SemicolonToken''"
| "getKindName CommaToken = ''CommaToken''"
| "getKindName ClassDeclaration = ''ClassDeclaration''"
| "getKindName FunctionDeclaration = ''FunctionDeclaration''"
| "getKindName MethodDeclaration = ''MethodDeclaration''"
| "getKindName Constructor = ''Constructor''"
| "getKindName InterfaceDeclaration = ''InterfaceDeclaration''"
| "getKindName VariableDeclaration = ''VariableDeclaration''"
| "getKindName PropertyDeclaration = ''PropertyDeclaration''"
| "getKindName Identifier = ''Identifier''"
| "getKindName StringLiteral = ''StringLiteral''"
| "getKindName NumericLiteral = ''NumericLiteral''"
| "getKindName TrueKeyword = ''TrueKeyword''"
| "getKindName FalseKeyword = ''FalseKeyword''"
| "getKindName (OtherKind s) = s"

text \<open>
  A resolved type (\<^verbatim>\<open>Type\<close>): what \<^verbatim>\<open>isVoid()\<close> and \<^verbatim>\<open>getText()\<close> answer. It comes from
  the type checker, so a declaration has one whether or not a type is written.
\<close>

record TsType =
  isVoid :: bool
  typeText :: string

text \<open>An initializer expression: its kind and its source text.\<close>

record Expression =
  exprKind :: SyntaxKind
  exprText :: string

text \<open>
  A parameter: \<^verbatim>\<open>getName()\<close>, the text of \<^verbatim>\<open>getTypeNode()\<close> and of
  \<^verbatim>\<open>getInitializer()\<close> (\<open>None\<close> for \<^verbatim>\<open>undefined\<close>).
\<close>

record ParameterDeclaration =
  paramName :: string
  paramTypeNode :: "string option"
  paramInitializer :: "string option"

text \<open>
  One node, without its children. Each field is the answer of the accessor of the
  same name; \<open>None\<close> stands for \<^verbatim>\<open>undefined\<close>. An accessor that a kind does not
  have is never called on it by the source, so its field is not read there.
  \<^item> \<open>isNameable\<close>, \<open>isJSDocable\<close>: whether the node has the mixins
    \<^verbatim>\<open>NameableNode\<close> and \<^verbatim>\<open>JSDocableNode\<close>, which the guards \<^verbatim>\<open>Node.isNameable\<close>
    and \<^verbatim>\<open>Node.isJSDocable\<close> of the first copy test.
  \<^item> \<open>getJsDocs\<close>: the \<^verbatim>\<open>getDescription()\<close> of each attached block, in order.
  \<^item> \<open>getClassExtends\<close> is \<^verbatim>\<open>getExtends()\<close> of a class (one optional reference),
    \<open>getInterfaceExtends\<close> is \<^verbatim>\<open>getExtends()\<close> of an interface (a list); both hold
    the references' texts, as does \<open>getImplements\<close>.
  \<^item> \<open>getReturnTypeNode\<close> is the text of the written return type annotation, if
    there is one; \<open>getReturnType\<close> is the resolved return type.
  \<^item> \<open>getTypeNode\<close> is the text of the written type annotation of a variable or
    property.
  \<^item> \<open>modifiers\<close> are the modifier keywords \<^verbatim>\<open>hasModifier\<close> looks through.
\<close>

record NodeInfo =
  getKind :: SyntaxKind
  getStartLineNumber :: nat
  getEndLineNumber :: nat
  getText :: string
  isNameable :: bool
  getName :: "string option"
  isJSDocable :: bool
  getJsDocs :: "string list"
  getClassExtends :: "string option"
  getImplements :: "string list"
  getInterfaceExtends :: "string list"
  getParameters :: "ParameterDeclaration list"
  getReturnTypeNode :: "string option"
  getReturnType :: TsType
  getTypeNode :: "string option"
  getInitializer :: "Expression option"
  modifiers :: "string list"
  isStatic :: bool
  isReadonly :: bool

datatype Node = Node (info: NodeInfo) (getChildren: "Node list")

text \<open>
  A source file: \<^verbatim>\<open>getFilePath()\<close>, \<^verbatim>\<open>getEndLineNumber()\<close> and
  \<^verbatim>\<open>getStatements()\<close>.
\<close>

record SourceFile =
  getFilePath :: string
  fileEndLineNumber :: nat
  getStatements :: "Node list"

text \<open>The type guards of the library that test the kind of a node.\<close>

definition isClassDeclaration :: "Node \<Rightarrow> bool" where
  "isClassDeclaration node = (getKind (info node) = ClassDeclaration)"

definition isFunctionDeclaration :: "Node \<Rightarrow> bool" where
  "isFunctionDeclaration node = (getKind (info node) = FunctionDeclaration)"

definition isMethodDeclaration :: "Node \<Rightarrow> bool" where
  "isMethodDeclaration node = (getKind (info node) = MethodDeclaration)"

definition isConstructorDeclaration :: "Node \<Rightarrow> bool" where
  "isConstructorDeclaration node = (getKind (info node) = Constructor)"

definition isInterfaceDeclaration :: "Node \<Rightarrow> bool" where
  "isInterfaceDeclaration node = (getKind (info node) = InterfaceDeclaration)"

definition isVariableDeclaration :: "Node \<Rightarrow> bool" where
  "isVariableDeclaration node = (getKind (info node) = VariableDeclaration)"

definition isPropertyDeclaration :: "Node \<Rightarrow> bool" where
  "isPropertyDeclaration node = (getKind (info node) = PropertyDeclaration)"

definition isIdentifier :: "Node \<Rightarrow> bool" where
  "isIdentifier node = (getKind (info node) = Identifier)"

text \<open>
  \<^verbatim>\<open>Node.isSignaturedDeclaration\<close>: the kinds that carry parameters and a return
  type. Functions, methods and constructors are among them; the others are
  \<open>OtherKind\<close> here.
\<close>

definition signaturedKindNames :: "string list" where
  "signaturedKindNames =
     [''ArrowFunction'', ''CallSignature'', ''ConstructSignature'', ''ConstructorType'',
      ''FunctionExpression'', ''FunctionType'', ''GetAccessor'', ''JSDocFunctionType'',
      ''MethodSignature'', ''SetAccessor'']"

definition isSignaturedDeclaration :: "Node \<Rightarrow> bool" where
  "isSignaturedDeclaration node =
     (case getKind (info node) of
        FunctionDeclaration \<Rightarrow> True
      | MethodDeclaration \<Rightarrow> True
      | Constructor \<Rightarrow> True
      | OtherKind s \<Rightarrow> s \<in> set signaturedKindNames
      | _ \<Rightarrow> False)"

text \<open>The literal guards, applied by the source to an initializer expression.\<close>

definition isStringLiteral :: "Expression \<Rightarrow> bool" where
  "isStringLiteral e = (exprKind e = StringLiteral)"

definition isNumericLiteral :: "Expression \<Rightarrow> bool" where
  "isNumericLiteral e = (exprKind e = NumericLiteral)"

definition isTrueLiteral :: "Expression \<Rightarrow> bool" where
  "isTrueLiteral e = (exprKind e = TrueKeyword)"

definition isFalseLiteral :: "Expression \<Rightarrow> bool" where
  "isFalseLiteral e = (exprKind e = FalseKeyword)"

definition hasModifier :: "Node \<Rightarrow> string \<Rightarrow> bool" where
  "hasModifier node m = (m \<in> set (modifiers (info node)))"

section \<open>The output tree\<close>

text \<open>A JSON value, as far as attribute values need it.\<close>

datatype json =
    JString string
  | JBool bool
  | JArray "json list"
  | JObject "(string \<times> json) list"

text \<open>
  A JavaScript object used as a record of attributes: an association list in
  insertion order. \<^verbatim>\<open>obj.k = v\<close> overwrites the value of a key that is there, in
  its place, and appends a new key.
\<close>

fun assign :: "'k \<Rightarrow> 'v \<Rightarrow> ('k \<times> 'v) list \<Rightarrow> ('k \<times> 'v) list" where
  "assign k v [] = [(k, v)]"
| "assign k v ((k', v') # ps) = (if k' = k then (k, v) # ps else (k', v') # assign k v ps)"

type_synonym attrs = "(string \<times> json) list"

text \<open>
  \<^verbatim>\<open>interface ASTNode\<close>: \<open>nodeType\<close> is required, every other field is optional
  (\<open>None\<close> when the field is missing). \<open>nodeText\<close> is the field \<^verbatim>\<open>text\<close>.
\<close>

datatype ASTNode = ASTNode
  (nodeType: string)
  (name: "string option")
  (startLine: "nat option")
  (endLine: "nat option")
  (nodeText: "string option")
  (docComment: "string option")
  (children: "ASTNode list option")
  (attributes: "attrs option")

fun set_name :: "string \<Rightarrow> ASTNode \<Rightarrow> ASTNode" where
  "set_name v (ASTNode t n s e x d c a) = ASTNode t (Some v) s e x d c a"

fun set_docComment :: "string \<Rightarrow> ASTNode \<Rightarrow> ASTNode" where
  "set_docComment v (ASTNode t n s e x d c a) = ASTNode t n s e x (Some v) c a"

fun set_attributes :: "attrs \<Rightarrow> ASTNode \<Rightarrow> ASTNode" where
  "set_attributes v (ASTNode t n s e x d c a) = ASTNode t n s e x d c (Some v)"

text \<open>
  \<^verbatim>\<open>if (!parent.children) { parent.children = []; } parent.children.push(astNode)\<close>
\<close>

fun push_child :: "ASTNode \<Rightarrow> ASTNode \<Rightarrow> ASTNode" where
  "push_child astNode (ASTNode t n s e x d c a) =
     ASTNode t n s e x d
       (case c of None \<Rightarrow> Some [astNode] | Some cs \<Rightarrow> Some (cs @ [astNode])) a"

section \<open>The node normalizer\<close>

definition skipKinds :: "SyntaxKind list" where
  "skipKinds = [EndOfFileToken, SemicolonToken, CommaToken]"

definition shouldSkipNode :: "Node \<Rightarrow> bool" where
  "shouldSkipNode node = (getKind (info node) \<in> set skipKinds)"

definition getNodeName :: "Node \<Rightarrow> string option" where
  "getNodeName node =
     (if isNameable (info node) then getName (info node)
      else if isIdentifier node then Some (getText (info node))
      else None)"

text \<open>\<^verbatim>\<open>Array.prototype.join\<close>\<close>

fun join :: "string \<Rightarrow> string list \<Rightarrow> string" where
  "join sep [] = []"
| "join sep [x] = x"
| "join sep (x # y # ys) = x @ sep @ join sep (y # ys)"

text \<open>
  \<^verbatim>\<open>String.prototype.trim\<close>. A string of the model is the UTF-8 encoding of the
  JavaScript string. \<open>whiteSpaceCodes\<close> are the encodings of the code points that
  \<^verbatim>\<open>trim\<close> removes, the white space and the line terminators of ECMAScript:
  U+0009 to U+000D, U+0020, U+00A0, U+1680, U+2000 to U+200A, U+2028, U+2029, U+202F,
  U+205F, U+3000 and U+FEFF. \<open>stripLeading\<close> removes, as long as it can, one of the
  given codes from the front; \<open>trim\<close> does so at both ends.
\<close>

definition whiteSpaceCodes :: "string list" where
  "whiteSpaceCodes =
     [[CHR 0x09], [CHR 0x0A], [CHR 0x0B], [CHR 0x0C], [CHR 0x0D], [CHR 0x20],
      [CHR 0xC2, CHR 0xA0],
      [CHR 0xE1, CHR 0x9A, CHR 0x80],
      [CHR 0xE2, CHR 0x80, CHR 0x80], [CHR 0xE2, CHR 0x80, CHR 0x81],
      [CHR 0xE2, CHR 0x80, CHR 0x82], [CHR 0xE2, CHR 0x80, CHR 0x83],
      [CHR 0xE2, CHR 0x80, CHR 0x84], [CHR 0xE2, CHR 0x80, CHR 0x85],
      [CHR 0xE2, CHR 0x80, CHR 0x86], [CHR 0xE2, CHR 0x80, CHR 0x87],
      [CHR 0xE2, CHR 0x80, CHR 0x88], [CHR 0xE2, CHR 0x80, CHR 0x89],
      [CHR 0xE2, CHR 0x80, CHR 0x8A],
      [CHR 0xE2, CHR 0x80, CHR 0xA8], [CHR 0xE2, CHR 0x80, CHR 0xA9],
      [CHR 0xE2, CHR 0x80, CHR 0xAF],
      [CHR 0xE2, CHR 0x81, CHR 0x9F],
      [CHR 0xE3, CHR 0x80, CHR 0x80],
      [CHR 0xEF, CHR 0xBB, CHR 0xBF]]"

definition leadingCode :: "string list \<Rightarrow> string \<Rightarrow> string option" where
  "leadingCode codes s = find (\<lambda>w. w \<noteq> [] \<and> take (length w) s = w) codes"

function stripLeading :: "string list \<Rightarrow> string \<Rightarrow> string" where
  "stripLeading codes s =
     (case leadingCode codes s of
        None \<Rightarrow> s
      | Some w \<Rightarrow> stripLeading codes (drop (length w) s))"
  by pat_completeness auto
termination
proof (relation "measure (\<lambda>(codes, s). length s)")
  show "wf (measure (\<lambda>(codes, s). length s))" by simp
next
  fix codes :: "string list" and s w :: string
  assume "leadingCode codes s = Some w"
  then have w: "w \<noteq> []" "take (length w) s = w"
    by (auto simp: leadingCode_def find_Some_iff)
  then have "s \<noteq> []" by auto
  with w(1) show "((codes, drop (length w) s), (codes, s)) \<in> measure (\<lambda>(codes, s). length s)"
    by simp
qed

declare stripLeading.simps [simp del]

definition trim :: "string \<Rightarrow> string" where
  "trim s = rev (stripLeading (map rev whiteSpaceCodes) (rev (stripLeading whiteSpaceCodes s)))"

text \<open>
  \<^verbatim>\<open>getDescription()\<close> is a string, so the source's filter for \<^verbatim>\<open>undefined\<close>
  descriptions keeps every block.
\<close>

definition getNodeDocComment :: "Node \<Rightarrow> string option" where
  "getNodeDocComment node =
     (if isJSDocable (info node) then
        (let jsDocs = getJsDocs (info node) in
         if length jsDocs > 0 then Some (trim (join [CHR 0x0A] jsDocs)) else None)
      else None)"

text \<open>The object built for one parameter.\<close>

definition paramInfo :: "ParameterDeclaration \<Rightarrow> json" where
  "paramInfo param =
     (let p0 = [(''name'', JString (paramName param))];
          p1 = (case paramTypeNode param of
                  Some ty \<Rightarrow> assign ''type'' (JString ty) p0
                | None \<Rightarrow> p0);
          p2 = (case paramInitializer param of
                  Some ini \<Rightarrow> assign ''default'' (JString ini) p1
                | None \<Rightarrow> p1)
      in JObject p2)"

text \<open>
  \<^verbatim>\<open>getNodeAttributes\<close> is a sequence of five guarded blocks over one object; each
  block is a function from the object before it to the object after it.
\<close>

definition classAttributes :: "Node \<Rightarrow> attrs \<Rightarrow> attrs" where
  "classAttributes node a =
     (if isClassDeclaration node then
        (let a1 = (case getClassExtends (info node) of
                     Some extendsClause \<Rightarrow> assign ''extends'' (JString extendsClause) a
                   | None \<Rightarrow> a);
             implementsClauses = getImplements (info node)
         in if length implementsClauses > 0
            then assign ''implements'' (JArray (map JString implementsClauses)) a1
            else a1)
      else a)"

text \<open>
  \<^verbatim>\<open>node.getReturnType()\<close> is the resolved type, never \<^verbatim>\<open>undefined\<close>: the
  source's test \<^verbatim>\<open>returnType && ...\<close> comes down to \<^verbatim>\<open>!returnType.isVoid()\<close>.
\<close>

definition signatureAttributes :: "Node \<Rightarrow> attrs \<Rightarrow> attrs" where
  "signatureAttributes node a =
     (if isFunctionDeclaration node \<or> isMethodDeclaration node \<or> isConstructorDeclaration node then
        (let parameters = getParameters (info node);
             a1 = (if length parameters > 0
                   then assign ''parameters'' (JArray (map paramInfo parameters)) a
                   else a)
         in if isSignaturedDeclaration node then
              (let returnType = getReturnType (info node) in
               if \<not> isVoid returnType
               then assign ''returnType'' (JString (typeText returnType)) a1
               else a1)
            else a1)
      else a)"

definition interfaceAttributes :: "Node \<Rightarrow> attrs \<Rightarrow> attrs" where
  "interfaceAttributes node a =
     (if isInterfaceDeclaration node then
        (let extendsNodes = getInterfaceExtends (info node) in
         if length extendsNodes > 0
         then assign ''extends'' (JArray (map JString extendsNodes)) a
         else a)
      else a)"

definition variableAttributes :: "Node \<Rightarrow> attrs \<Rightarrow> attrs" where
  "variableAttributes node a =
     (if isVariableDeclaration node then
        (let a1 = (case getTypeNode (info node) of
                     Some typeNode \<Rightarrow> assign ''type'' (JString typeNode) a
                   | None \<Rightarrow> a)
         in case getInitializer (info node) of
              Some initializer \<Rightarrow>
                (let a2 = assign ''hasInitializer'' (JBool True) a1 in
                 if isStringLiteral initializer \<or> isNumericLiteral initializer \<or>
                    isTrueLiteral initializer \<or> isFalseLiteral initializer
                 then assign ''initializerValue'' (JString (exprText initializer)) a2
                 else a2)
            | None \<Rightarrow> a1)
      else a)"

definition propertyAttributes :: "Node \<Rightarrow> attrs \<Rightarrow> attrs" where
  "propertyAttributes node a =
     (if isPropertyDeclaration node then
        (let a1 = (case getTypeNode (info node) of
                     Some typeNode \<Rightarrow> assign ''type'' (JString typeNode) a
                   | None \<Rightarrow> a);
             a2 = (if hasModifier node ''private'' then assign ''visibility'' (JString ''private'') a1
                   else if hasModifier node ''protected'' then assign ''visibility'' (JString ''protected'') a1
                   else if hasModifier node ''public'' then assign ''visibility'' (JString ''public'') a1
                   else a1);
             a3 = (if isStatic (info node) then assign ''static'' (JBool True) a2 else a2)
         in if isReadonly (info node) then assign ''readonly'' (JBool True) a3 else a3)
      else a)"

definition getNodeAttributes :: "Node \<Rightarrow> attrs" where
  "getNodeAttributes node =
     propertyAttributes node
       (variableAttributes node
         (interfaceAttributes node
           (signatureAttributes node
             (classAttributes node []))))"

text \<open>
  \<^verbatim>\<open>addNodeSpecificDetails\<close>. \<^verbatim>\<open>if (name)\<close> and \<^verbatim>\<open>if (docComment)\<close> pass for a
  string that is there and not empty.
\<close>

definition addNodeSpecificDetails :: "Node \<Rightarrow> ASTNode \<Rightarrow> ASTNode" where
  "addNodeSpecificDetails node astNode =
     (let n1 = (case getNodeName node of
                  Some nm \<Rightarrow> if nm \<noteq> [] then set_name nm astNode else astNode
                | None \<Rightarrow> astNode);
          n2 = (case getNodeDocComment node of
                  Some doc \<Rightarrow> if doc \<noteq> [] then set_docComment doc n1 else n1
                | None \<Rightarrow> n1);
          attributes = getNodeAttributes node
      in if length attributes > 0 then set_attributes attributes n2 else n2)"

section \<open>The tree walker\<close>

text \<open>
  \<^verbatim>\<open>processNode\<close> changes the parent it is given; here it returns the changed
  parent. The source pushes the new node onto the parent before it fills in the new
  node's children, through the shared reference; the parent returned here holds the
  node with its children filled in, which is what the source's parent holds when
  \<^verbatim>\<open>processNode\<close> returns. \<open>processNodeChildren_loop\<close> is the \<^verbatim>\<open>for\<close> loop of
  \<^verbatim>\<open>processNodeChildren\<close> over the children that remain.
\<close>

fun processNode :: "Node \<Rightarrow> ASTNode \<Rightarrow> ASTNode"
  and processNodeChildren_loop :: "Node list \<Rightarrow> ASTNode \<Rightarrow> ASTNode" where
  "processNode (Node i cs) parentASTNode =
     (if shouldSkipNode (Node i cs) then parentASTNode
      else
        (let astNode = ASTNode (getKindName (getKind i))
                         None (Some (getStartLineNumber i)) (Some (getEndLineNumber i))
                         None None None None;
             astNode1 = addNodeSpecificDetails (Node i cs) astNode
         in push_child (processNodeChildren_loop cs astNode1) parentASTNode))"
| "processNodeChildren_loop [] astNode = astNode"
| "processNodeChildren_loop (child # rest) astNode =
     processNodeChildren_loop rest (processNode child astNode)"

definition processNodeChildren :: "Node \<Rightarrow> ASTNode \<Rightarrow> ASTNode" where
  "processNodeChildren node astNode = processNodeChildren_loop (getChildren node) astNode"

text \<open>\<^verbatim>\<open>path.basename\<close> of Node.js is a parameter of the source-file normalizer.\<close>

definition createNodeFromSourceFile :: "(string \<Rightarrow> string) \<Rightarrow> SourceFile \<Rightarrow> ASTNode" where
  "createNodeFromSourceFile basename sourceFile =
     (let fileNode = ASTNode ''SourceFile'' (Some (basename (getFilePath sourceFile)))
                       (Some 1) (Some (fileEndLineNumber sourceFile)) None None (Some []) None
      in processNodeChildren_loop (getStatements sourceFile) fileNode)"

section \<open>Exceptions, the file system and the parser\<close>

text \<open>
  A thrown value is an \<^verbatim>\<open>Error\<close> object (its \<^verbatim>\<open>name\<close> and \<^verbatim>\<open>message\<close>) or any other
  value (as \<^verbatim>\<open>String\<close> prints it). \<open>errorDescription\<close> is the source's
  \<^verbatim>\<open>error instanceof Error ? error.message : String(error)\<close>, \<open>errorToString\<close> is
  \<^verbatim>\<open>String(error)\<close>, which a template literal applies to \<^verbatim>\<open>${error}\<close>.
\<close>

datatype Thrown = ErrorObject string string | NonError string

fun errorDescription :: "Thrown \<Rightarrow> string" where
  "errorDescription (ErrorObject nm msg) = msg"
| "errorDescription (NonError s) = s"

fun errorToString :: "Thrown \<Rightarrow> string" where
  "errorToString (ErrorObject nm msg) =
     (if nm = [] then msg else if msg = [] then nm else nm @ '': '' @ msg)"
| "errorToString (NonError s) = s"

datatype 'a outcome = Returned 'a | Threw Thrown

text \<open>
  What the file system holds at a path: a regular file, a directory with its entries
  in the order \<^verbatim>\<open>readdir\<close> lists them, a directory that cannot be read (\<^verbatim>\<open>readdir\<close>
  throws the given error), or something that is neither a file nor a directory.
\<close>

datatype FsTree =
    File
  | Special
  | Dir "(string \<times> FsTree) list"
  | UnreadableDir Thrown

fun isDirectory :: "FsTree \<Rightarrow> bool" where
  "isDirectory (Dir es) = True"
| "isDirectory (UnreadableDir e) = True"
| "isDirectory File = False"
| "isDirectory Special = False"

fun isFile :: "FsTree \<Rightarrow> bool" where
  "isFile File = True"
| "isFile t = False"

text \<open>
  The world outside the engine, fixed during one call:
  \<^item> \<open>fs_lookup\<close>: what the process finds at a path (\<open>None\<close>: nothing it can reach);
  \<^item> \<open>addSourceFileAtPath\<close>: what \<^verbatim>\<open>project.addSourceFileAtPath\<close> does for a path,
    return a source file or throw;
  \<^item> \<open>path_join\<close>, \<open>path_basename\<close>, \<open>path_extname\<close>: the functions of the
    \<^verbatim>\<open>path\<close> module of Node.js.
\<close>

record Env =
  fs_lookup :: "string \<Rightarrow> FsTree option"
  addSourceFileAtPath :: "string \<Rightarrow> SourceFile outcome"
  path_join :: "string \<Rightarrow> string \<Rightarrow> string"
  path_basename :: "string \<Rightarrow> string"
  path_extname :: "string \<Rightarrow> string"

text \<open>
  The calls that the claims speak of are recorded: a directory read, a call of the
  parser, a line printed with \<^verbatim>\<open>console.error\<close>. A computation returns or throws,
  and has the list of its events.
\<close>

datatype Event = Readdir string | AddSourceFile string | ConsoleError string

type_synonym 'a run = "'a outcome \<times> Event list"

fun andThen :: "'a run \<Rightarrow> ('a \<Rightarrow> 'b run) \<Rightarrow> 'b run" where
  "andThen (Returned x, evs) f = (case f x of (r, evs') \<Rightarrow> (r, evs @ evs'))"
| "andThen (Threw e, evs) f = (Threw e, evs)"

text \<open>\<^verbatim>\<open>try { body } catch (error) { handler }\<close>\<close>

fun tryCatch :: "'a run \<Rightarrow> (Thrown \<Rightarrow> 'a run) \<Rightarrow> 'a run" where
  "tryCatch (Returned x, evs) handler = (Returned x, evs)"
| "tryCatch (Threw e, evs) handler = (case handler e of (r, evs') \<Rightarrow> (r, evs @ evs'))"

definition quoted :: "string \<Rightarrow> string" where
  "quoted p = [CHR 0x27] @ p @ [CHR 0x27]"

definition ENOENT :: "string \<Rightarrow> string \<Rightarrow> Thrown" where
  "ENOENT syscall p =
     ErrorObject ''Error'' (''ENOENT: no such file or directory, '' @ syscall @ '' '' @ quoted p)"

definition ENOTDIR :: "string \<Rightarrow> string \<Rightarrow> Thrown" where
  "ENOTDIR syscall p =
     ErrorObject ''Error'' (''ENOTDIR: not a directory, '' @ syscall @ '' '' @ quoted p)"

text \<open>\<^verbatim>\<open>fs.promises.access(p)\<close>, \<^verbatim>\<open>fs.existsSync(p)\<close>, \<^verbatim>\<open>fs.statSync(p)\<close>\<close>

definition fs_access :: "Env \<Rightarrow> string \<Rightarrow> unit outcome" where
  "fs_access env p =
     (case fs_lookup env p of
        None \<Rightarrow> Threw (ENOENT ''access'' p)
      | Some t \<Rightarrow> Returned ())"

definition existsSync :: "Env \<Rightarrow> string \<Rightarrow> bool" where
  "existsSync env p = (fs_lookup env p \<noteq> None)"

definition statSync :: "Env \<Rightarrow> string \<Rightarrow> FsTree outcome" where
  "statSync env p =
     (case fs_lookup env p of
        None \<Rightarrow> Threw (ENOENT ''stat'' p)
      | Some t \<Rightarrow> Returned t)"

definition project_addSourceFileAtPath :: "Env \<Rightarrow> string \<Rightarrow> SourceFile run" where
  "project_addSourceFileAtPath env p = (addSourceFileAtPath env p, [AddSourceFile p])"

section \<open>The tree walker, second copy\<close>

text \<open>
  The second copy (lines 495 to 723) differs from the first in two calls: it tests
  the mixins with \<^verbatim>\<open>Node.isNameableNode\<close> (line 569) and \<^verbatim>\<open>Node.isJSDocableNode\<close>
  (line 584), where the first copy calls \<^verbatim>\<open>Node.isNameable\<close> and
  \<^verbatim>\<open>Node.isJSDocable\<close>. The release of the library that is installed has the guards
  under the names the first copy calls; a \<open>Release\<close> records whether it has them
  under the names of the second copy too. A call of a name that the release does not
  have throws a \<^verbatim>\<open>TypeError\<close>, so the walker of the second copy returns or throws.
\<close>

record Release =
  has_isNameableNode :: bool
  has_isJSDocableNode :: bool

definition notAFunction :: "string \<Rightarrow> Thrown" where
  "notAFunction guard =
     ErrorObject ''TypeError'' (''ts_morph.Node.'' @ guard @ '' is not a function'')"

definition getNodeName2 :: "Release \<Rightarrow> Node \<Rightarrow> string option outcome" where
  "getNodeName2 lib node =
     (if \<not> has_isNameableNode lib then Threw (notAFunction ''isNameableNode'')
      else if isNameable (info node) then Returned (getName (info node))
      else if isIdentifier node then Returned (Some (getText (info node)))
      else Returned None)"

definition getNodeDocComment2 :: "Release \<Rightarrow> Node \<Rightarrow> string option outcome" where
  "getNodeDocComment2 lib node =
     (if \<not> has_isJSDocableNode lib then Threw (notAFunction ''isJSDocableNode'')
      else if isJSDocable (info node) then
        (let jsDocs = getJsDocs (info node) in
         if length jsDocs > 0 then Returned (Some (trim (join [CHR 0x0A] jsDocs)))
         else Returned None)
      else Returned None)"

text \<open>\<^verbatim>\<open>getNodeAttributes\<close> and \<^verbatim>\<open>shouldSkipNode\<close> are the same text in both copies.\<close>

definition addNodeSpecificDetails2 :: "Release \<Rightarrow> Node \<Rightarrow> ASTNode \<Rightarrow> ASTNode outcome" where
  "addNodeSpecificDetails2 lib node astNode =
     (case getNodeName2 lib node of
        Threw e \<Rightarrow> Threw e
      | Returned nameResult \<Rightarrow>
          (let n1 = (case nameResult of
                       Some nm \<Rightarrow> if nm \<noteq> [] then set_name nm astNode else astNode
                     | None \<Rightarrow> astNode)
           in case getNodeDocComment2 lib node of
                Threw e \<Rightarrow> Threw e
              | Returned docResult \<Rightarrow>
                  (let n2 = (case docResult of
                               Some doc \<Rightarrow> if doc \<noteq> [] then set_docComment doc n1 else n1
                             | None \<Rightarrow> n1);
                       attributes = getNodeAttributes node
                   in Returned (if length attributes > 0 then set_attributes attributes n2
                                else n2))))"

fun processNode2 :: "Release \<Rightarrow> Node \<Rightarrow> ASTNode \<Rightarrow> ASTNode outcome"
  and processNodeChildren2_loop :: "Release \<Rightarrow> Node list \<Rightarrow> ASTNode \<Rightarrow> ASTNode outcome" where
  "processNode2 lib (Node i cs) parentASTNode =
     (if shouldSkipNode (Node i cs) then Returned parentASTNode
      else
        (let astNode = ASTNode (getKindName (getKind i))
                         None (Some (getStartLineNumber i)) (Some (getEndLineNumber i))
                         None None None None
         in case addNodeSpecificDetails2 lib (Node i cs) astNode of
              Threw e \<Rightarrow> Threw e
            | Returned astNode1 \<Rightarrow>
                (case processNodeChildren2_loop lib cs astNode1 of
                   Threw e \<Rightarrow> Threw e
                 | Returned astNode2 \<Rightarrow> Returned (push_child astNode2 parentASTNode))))"
| "processNodeChildren2_loop lib [] astNode = Returned astNode"
| "processNodeChildren2_loop lib (child # rest) astNode =
     (case processNode2 lib child astNode of
        Threw e \<Rightarrow> Threw e
      | Returned astNode1 \<Rightarrow> processNodeChildren2_loop lib rest astNode1)"

definition createNodeFromSourceFile2 ::
    "Release \<Rightarrow> (string \<Rightarrow> string) \<Rightarrow> SourceFile \<Rightarrow> ASTNode outcome" where
  "createNodeFromSourceFile2 lib basename sourceFile =
     (let fileNode = ASTNode ''SourceFile'' (Some (basename (getFilePath sourceFile)))
                       (Some 1) (Some (fileEndLineNumber sourceFile)) None None (Some []) None
      in processNodeChildren2_loop lib (getStatements sourceFile) fileNode)"

section \<open>The single-file pipeline\<close>

text \<open>
  A result for one file: \<open>Inr\<close> the tree, \<open>Inl msg\<close> the envelope
  \<^verbatim>\<open>{ error: msg }\<close>.
\<close>

type_synonym FileResult = "string + ASTNode"

text \<open>
  The first copy (line 30). The promise it returns is modelled by the value the
  promise settles to: \<open>Returned\<close> when it resolves, \<open>Threw\<close> when it rejects.
  The calls that can throw inside the outer \<^verbatim>\<open>try\<close> are those of the library; the
  one modelled as throwing is \<^verbatim>\<open>addSourceFileAtPath\<close>, the accessors of a tree that
  was parsed are total.
\<close>

definition parseTypeScriptFile :: "Env \<Rightarrow> string \<Rightarrow> FileResult run" where
  "parseTypeScriptFile env filePath =
     tryCatch
       (case fs_access env filePath of
          Threw e \<Rightarrow> (Returned (Inl (''File not found: '' @ filePath)), [])
        | Returned u \<Rightarrow>
            andThen (project_addSourceFileAtPath env filePath)
              (\<lambda>sourceFile.
                 (Returned (Inr (createNodeFromSourceFile (path_basename env) sourceFile)), [])))
       (\<lambda>error.
          (Returned (Inl (''Failed to parse '' @ filePath @ '': '' @ errorDescription error)), []))"


section \<open>The directory pipeline, first copy\<close>

definition EXCLUDED_DIRS :: "string list" where
  "EXCLUDED_DIRS =
     [''node_modules'', ''.git'', ''dist'', ''build'', ''.venv'', ''venv'', ''coverage'',
      ''.next'', ''.cache'', ''__pycache__'']"

text \<open>\<^verbatim>\<open>String.prototype.endsWith\<close>\<close>

definition endsWith :: "string \<Rightarrow> string \<Rightarrow> bool" where
  "endsWith s suf = (length suf \<le> length s \<and> drop (length s - length suf) s = suf)"

text \<open>
  \<^verbatim>\<open>traverse\<close> of the first copy (line 333), on what the file system holds at
  \<open>currentPath\<close>. It threads the list \<open>files\<close> and the events; its first component
  is the error it throws, if it throws. \<open>traverse_entries\<close> is its loop over the
  entries that remain. A \<^verbatim>\<open>readdir\<close> of something that is no directory throws.
\<close>

fun traverse ::
    "Env \<Rightarrow> string list \<Rightarrow> string \<Rightarrow> FsTree \<Rightarrow> string list \<Rightarrow> Event list
      \<Rightarrow> Thrown option \<times> string list \<times> Event list"
  and traverse_entries ::
    "Env \<Rightarrow> string list \<Rightarrow> string \<Rightarrow> (string \<times> FsTree) list \<Rightarrow> string list \<Rightarrow> Event list
      \<Rightarrow> Thrown option \<times> string list \<times> Event list" where
  "traverse env extensions currentPath (Dir entries) files evs =
     traverse_entries env extensions currentPath entries files (evs @ [Readdir currentPath])"
| "traverse env extensions currentPath (UnreadableDir e) files evs =
     (Some e, files, evs @ [Readdir currentPath])"
| "traverse env extensions currentPath File files evs =
     (Some (ENOTDIR ''scandir'' currentPath), files, evs @ [Readdir currentPath])"
| "traverse env extensions currentPath Special files evs =
     (Some (ENOTDIR ''scandir'' currentPath), files, evs @ [Readdir currentPath])"
| "traverse_entries env extensions currentPath [] files evs = (None, files, evs)"
| "traverse_entries env extensions currentPath ((entryName, t) # rest) files evs =
     (let fullPath = path_join env currentPath entryName in
      if isDirectory t then
        (if entryName \<in> set EXCLUDED_DIRS
         then traverse_entries env extensions currentPath rest files evs
         else (case traverse env extensions fullPath t files evs of
                 (Some e, files', evs') \<Rightarrow> (Some e, files', evs')
               | (None, files', evs') \<Rightarrow>
                   traverse_entries env extensions currentPath rest files' evs'))
      else if isFile t \<and> list_ex (\<lambda>ext. endsWith entryName ext) extensions
      then traverse_entries env extensions currentPath rest (files @ [fullPath]) evs
      else traverse_entries env extensions currentPath rest files evs)"

definition findFilesRecursively ::
    "Env \<Rightarrow> string \<Rightarrow> string list \<Rightarrow> Thrown option \<times> string list \<times> Event list" where
  "findFilesRecursively env dirPath extensions =
     (case fs_lookup env dirPath of
        None \<Rightarrow> (Some (ENOENT ''scandir'' dirPath), [], [Readdir dirPath])
      | Some t \<Rightarrow> traverse env extensions dirPath t [] [])"

text \<open>
  The value \<^verbatim>\<open>parseDirectory\<close> returns: a mapping from keys to file results, in
  insertion order, or (second copy only) the object \<^verbatim>\<open>{ error: msg }\<close> itself, whose
  one key \<^verbatim>\<open>error\<close> holds a string.
\<close>

datatype DirectoryResult =
    Results "(string \<times> FileResult) list"
  | TopLevelError string

definition CONCURRENCY_LIMIT :: nat where
  "CONCURRENCY_LIMIT = 5"

text \<open>
  One chunk: every file of it is parsed and its result stored under its path. The
  files of a chunk are in flight together and may finish in any order; they are taken
  here in the order of the chunk.
\<close>

fun process_chunk ::
    "Env \<Rightarrow> string list \<Rightarrow> (string \<times> FileResult) list \<Rightarrow> (string \<times> FileResult) list run" where
  "process_chunk env [] results = (Returned results, [])"
| "process_chunk env (file # rest) results =
     andThen (parseTypeScriptFile env file)
       (\<lambda>r. process_chunk env rest (assign file r results))"

text \<open>\<^verbatim>\<open>files.slice(i, i + CONCURRENCY_LIMIT)\<close>\<close>

definition slice :: "nat \<Rightarrow> nat \<Rightarrow> 'a list \<Rightarrow> 'a list" where
  "slice i j xs = take (j - i) (drop i xs)"

function chunk_loop ::
    "Env \<Rightarrow> string list \<Rightarrow> nat \<Rightarrow> (string \<times> FileResult) list
      \<Rightarrow> (string \<times> FileResult) list run" where
  "chunk_loop env files i results =
     (if i < length files then
        andThen (process_chunk env (slice i (i + CONCURRENCY_LIMIT) files) results)
          (\<lambda>results'. chunk_loop env files (i + CONCURRENCY_LIMIT) results')
      else (Returned results, []))"
  by pat_completeness auto
termination
  by (relation "measure (\<lambda>(env, files, i, results). length files - i)")
     (auto simp: CONCURRENCY_LIMIT_def)

declare chunk_loop.simps [simp del]

text \<open>The first copy of \<^verbatim>\<open>parseDirectory\<close> (line 361).\<close>

definition parseDirectory :: "Env \<Rightarrow> string \<Rightarrow> string list \<Rightarrow> DirectoryResult run" where
  "parseDirectory env dirPath extensions =
     tryCatch
       (case findFilesRecursively env dirPath extensions of
          (Some e, files, evs) \<Rightarrow> (Threw e, evs)
        | (None, files, evs) \<Rightarrow>
            andThen (Returned files, evs)
              (\<lambda>files. andThen (chunk_loop env files 0 [])
                 (\<lambda>results. (Returned (Results results), []))))
       (\<lambda>error.
          (Returned (Results
             [(dirPath, Inl (''Failed to parse directory '' @ dirPath @ '': '' @
                              errorDescription error))]), []))"

section \<open>The directory pipeline, second copy\<close>

text \<open>
  \<^verbatim>\<open>traverse\<close> of the second copy (line 776): an error of \<^verbatim>\<open>readdir\<close> is caught,
  printed, and the directory contributes no file.
\<close>

fun traverse2 ::
    "Env \<Rightarrow> string list \<Rightarrow> string \<Rightarrow> FsTree \<Rightarrow> string list \<Rightarrow> Event list
      \<Rightarrow> string list \<times> Event list"
  and traverse2_entries ::
    "Env \<Rightarrow> string list \<Rightarrow> string \<Rightarrow> (string \<times> FsTree) list \<Rightarrow> string list \<Rightarrow> Event list
      \<Rightarrow> string list \<times> Event list" where
  "traverse2 env extensions currentPath (Dir entries) files evs =
     traverse2_entries env extensions currentPath entries files (evs @ [Readdir currentPath])"
| "traverse2 env extensions currentPath (UnreadableDir e) files evs =
     (files, evs @ [Readdir currentPath,
        ConsoleError (''Error reading directory '' @ currentPath @ '': '' @ errorToString e)])"
| "traverse2 env extensions currentPath File files evs =
     (files, evs @ [Readdir currentPath,
        ConsoleError (''Error reading directory '' @ currentPath @ '': '' @
                      errorToString (ENOTDIR ''scandir'' currentPath))])"
| "traverse2 env extensions currentPath Special files evs =
     (files, evs @ [Readdir currentPath,
        ConsoleError (''Error reading directory '' @ currentPath @ '': '' @
                      errorToString (ENOTDIR ''scandir'' currentPath))])"
| "traverse2_entries env extensions currentPath [] files evs = (files, evs)"
| "traverse2_entries env extensions currentPath ((entryName, t) # rest) files evs =
     (let entryPath = path_join env currentPath entryName in
      if isDirectory t then
        (if entryName \<noteq> ''node_modules'' \<and> entryName \<noteq> ''.git'' \<and>
            entryName \<noteq> ''dist'' \<and> entryName \<noteq> ''.venv''
         then (case traverse2 env extensions entryPath t files evs of
                 (files', evs') \<Rightarrow> traverse2_entries env extensions currentPath rest files' evs')
         else traverse2_entries env extensions currentPath rest files evs)
      else if isFile t \<and> path_extname env entryName \<in> set extensions
      then traverse2_entries env extensions currentPath rest (files @ [entryPath]) evs
      else traverse2_entries env extensions currentPath rest files evs)"

definition findFilesRecursively2 ::
    "Env \<Rightarrow> string \<Rightarrow> string list \<Rightarrow> string list \<times> Event list" where
  "findFilesRecursively2 env dirPath extensions =
     (case fs_lookup env dirPath of
        None \<Rightarrow> ([], [Readdir dirPath,
                  ConsoleError (''Error reading directory '' @ dirPath @ '': '' @
                                errorToString (ENOENT ''scandir'' dirPath))])
      | Some t \<Rightarrow> traverse2 env extensions dirPath t [] [])"

text \<open>
  The project of the second copy is the list of the source files added to it, which
  \<^verbatim>\<open>getSourceFiles()\<close> returns; a path that is added again gives the source file
  the project already has. \<open>add_files\<close> is the first loop of \<^verbatim>\<open>parseDirectory\<close>,
  \<open>parse_each\<close> the second, whose \<^verbatim>\<open>catch\<close> stores the envelope
  \<^verbatim>\<open>{error: "Failed to parse file: <error>"}\<close> under the path of the source file.
\<close>

fun add_files ::
    "Env \<Rightarrow> string list \<Rightarrow> SourceFile list \<Rightarrow> (string \<times> FileResult) list \<Rightarrow> Event list
      \<Rightarrow> SourceFile list \<times> (string \<times> FileResult) list \<times> Event list" where
  "add_files env [] project results evs = (project, results, evs)"
| "add_files env (file # rest) project results evs =
     (case addSourceFileAtPath env file of
        Returned sourceFile \<Rightarrow>
          add_files env rest
            (if getFilePath sourceFile \<in> set (map getFilePath project) then project
             else project @ [sourceFile])
            results (evs @ [AddSourceFile file])
      | Threw error \<Rightarrow>
          add_files env rest project
            (assign file (Inl (''Failed to add file to project: '' @ errorToString error)) results)
            (evs @ [AddSourceFile file]))"

fun parse_each ::
    "Release \<Rightarrow> (string \<Rightarrow> string) \<Rightarrow> SourceFile list \<Rightarrow> (string \<times> FileResult) list
      \<Rightarrow> (string \<times> FileResult) list" where
  "parse_each lib basename [] results = results"
| "parse_each lib basename (sourceFile # rest) results =
     parse_each lib basename rest
       (assign (getFilePath sourceFile)
          (case createNodeFromSourceFile2 lib basename sourceFile of
             Returned astRoot \<Rightarrow> Inr astRoot
           | Threw error \<Rightarrow> Inl (''Failed to parse file: '' @ errorToString error))
          results)"

text \<open>The second copy of \<^verbatim>\<open>parseDirectory\<close> (line 731).\<close>

definition parseDirectory2 ::
    "Release \<Rightarrow> Env \<Rightarrow> string \<Rightarrow> string list \<Rightarrow> DirectoryResult run" where
  "parseDirectory2 lib env dirPath extensions =
     tryCatch
       (if \<not> existsSync env dirPath
        then (Returned (TopLevelError (''Directory not found: '' @ dirPath)), [])
        else
          (case statSync env dirPath of
             Threw e \<Rightarrow> (Threw e, [])
           | Returned stats \<Rightarrow>
               if \<not> isDirectory stats
               then (Returned (TopLevelError (''Directory not found: '' @ dirPath)), [])
               else
                 (case findFilesRecursively2 env dirPath extensions of
                    (files, evs) \<Rightarrow>
                      (case add_files env files [] [] evs of
                         (project, results, evs') \<Rightarrow>
                           (Returned (Results (parse_each lib (path_basename env) project results)),
                            evs')))))
       (\<lambda>error.
          (Returned (TopLevelError (''Failed to parse directory: '' @ errorToString error)), []))"

section \<open>Notions the properties are stated with\<close>

subsection \<open>Trees\<close>

text \<open>The children of an output node, none when the field is missing.\<close>

fun kids :: "ASTNode \<Rightarrow> ASTNode list" where
  "kids (ASTNode t n s e x d c a) = (case c of None \<Rightarrow> [] | Some cs \<Rightarrow> cs)"

text \<open>Every node of an output tree, the root first.\<close>

fun nodes_of :: "ASTNode \<Rightarrow> ASTNode list" where
  "nodes_of (ASTNode t n s e x d c a) =
     ASTNode t n s e x d c a #
       (case c of None \<Rightarrow> [] | Some cs \<Rightarrow> concat (map nodes_of cs))"

text \<open>The nodes of an output tree below its root.\<close>

definition descendants :: "ASTNode \<Rightarrow> ASTNode list" where
  "descendants root = concat (map nodes_of (kids root))"

text \<open>
  The output of the walker for one syntax node, as a function: no node for a skipped
  one, else the node with its details and the outputs of its children below it.
  \<open>add_children\<close> attaches a list of nodes as \<^verbatim>\<open>push\<close> does one by one.
\<close>

fun add_children :: "ASTNode list \<Rightarrow> ASTNode \<Rightarrow> ASTNode" where
  "add_children ys (ASTNode t n s e x d c a) =
     (if ys = [] then ASTNode t n s e x d c a
      else ASTNode t n s e x d (Some ((case c of None \<Rightarrow> [] | Some cs \<Rightarrow> cs) @ ys)) a)"

definition bareNode :: "NodeInfo \<Rightarrow> ASTNode" where
  "bareNode i =
     ASTNode (getKindName (getKind i)) None (Some (getStartLineNumber i))
       (Some (getEndLineNumber i)) None None None None"

fun normalized :: "Node \<Rightarrow> ASTNode list" where
  "normalized (Node i cs) =
     (if shouldSkipNode (Node i cs) then []
      else [add_children (concat (map normalized cs))
              (addNodeSpecificDetails (Node i cs) (bareNode i))])"

subsection \<open>Noise filtering\<close>

text \<open>
  The filtering policy in the words of the specification: the noise kinds are the
  end-of-file marker, the statement terminator and the argument separator; a noise
  node is dropped with all below it, every other node is kept. A tree of kind names
  is what is compared.
\<close>

datatype KindTree = KindTree string "KindTree list"

definition isNoiseKind :: "SyntaxKind \<Rightarrow> bool" where
  "isNoiseKind k = (k = EndOfFileToken \<or> k = SemicolonToken \<or> k = CommaToken)"

fun keptKinds :: "Node \<Rightarrow> KindTree list" where
  "keptKinds (Node i cs) =
     (if isNoiseKind (getKind i) then []
      else [KindTree (getKindName (getKind i)) (concat (map keptKinds cs))])"

fun kindsOf :: "ASTNode \<Rightarrow> KindTree" where
  "kindsOf (ASTNode t n s e x d c a) =
     KindTree t (case c of None \<Rightarrow> [] | Some cs \<Rightarrow> map kindsOf cs)"

subsection \<open>Spans\<close>




subsection \<open>The attribute vocabulary\<close>

text \<open>The table of section 4.1 of the specification, by the kind name of the node.\<close>

definition vocabulary :: "string \<Rightarrow> string list" where
  "vocabulary kindName =
     (if kindName = ''ClassDeclaration'' then [''extends'', ''implements'']
      else if kindName = ''FunctionDeclaration'' \<or> kindName = ''MethodDeclaration'' \<or>
              kindName = ''Constructor'' then [''parameters'', ''returnType'']
      else if kindName = ''InterfaceDeclaration'' then [''extends'']
      else if kindName = ''VariableDeclaration'' then [''type'', ''hasInitializer'', ''initializerValue'']
      else if kindName = ''PropertyDeclaration'' then [''type'', ''visibility'', ''static'', ''readonly'']
      else [])"

definition attributesInVocabulary :: "ASTNode \<Rightarrow> bool" where
  "attributesInVocabulary n =
     (case attributes n of
        None \<Rightarrow> True
      | Some a \<Rightarrow> set (map fst a) \<subseteq> set (vocabulary (nodeType n)))"

subsection \<open>Directories\<close>

text \<open>The path does not exist or is not a directory.\<close>

definition noDirectoryAt :: "Env \<Rightarrow> string \<Rightarrow> bool" where
  "noDirectoryAt env p =
     (case fs_lookup env p of None \<Rightarrow> True | Some t \<Rightarrow> \<not> isDirectory t)"

subsection \<open>The two copies\<close>



text \<open>The result is the top-level envelope, not a mapping.\<close>

fun isTopLevelError :: "DirectoryResult \<Rightarrow> bool" where
  "isTopLevelError (TopLevelError msg) = True"
| "isTopLevelError (Results m) = False"

section \<open>Example inputs\<close>

text \<open>A node of the given kind and lines for which every accessor answers "nothing".\<close>

definition plainInfo :: "SyntaxKind \<Rightarrow> nat \<Rightarrow> nat \<Rightarrow> NodeInfo" where
  "plainInfo k s e =
     \<lparr>getKind = k, getStartLineNumber = s, getEndLineNumber = e, getText = [],
      isNameable = False, getName = None, isJSDocable = False, getJsDocs = [],
      getClassExtends = None, getImplements = [], getInterfaceExtends = [],
      getParameters = [], getReturnTypeNode = None,
      getReturnType = \<lparr>isVoid = False, typeText = ''any''\<rparr>,
      getTypeNode = None, getInitializer = None, modifiers = [],
      isStatic = False, isReadonly = False\<rparr>"

definition tokenNode :: "string \<Rightarrow> nat \<Rightarrow> Node" where
  "tokenNode kindName line = Node (plainInfo (OtherKind kindName) line line) []"

definition identifierNode :: "string \<Rightarrow> nat \<Rightarrow> Node" where
  "identifierNode nm line = Node ((plainInfo Identifier line line)\<lparr>getText := nm\<rparr>) []"

text \<open>
  \<^verbatim>\<open>function f() { return 1; }\<close>: no return type is written, the type checker
  resolves \<^verbatim>\<open>number\<close>.
\<close>

definition inferredReturnFunction :: Node where
  "inferredReturnFunction =
     Node ((plainInfo FunctionDeclaration 1 1)
             \<lparr>getText := ''function f() { return 1; }'', isNameable := True,
              getName := Some ''f'', isJSDocable := True,
              getReturnType := \<lparr>isVoid = False, typeText = ''number''\<rparr>\<rparr>)
       [tokenNode ''FunctionKeyword'' 1, identifierNode ''f'' 1, tokenNode ''OpenParenToken'' 1,
        tokenNode ''SyntaxList'' 1, tokenNode ''CloseParenToken'' 1, tokenNode ''Block'' 1]"

text \<open>\<^verbatim>\<open>public deactivate(): void { this.isActive = false; }\<close>, from the sample file.\<close>

definition voidMethod :: Node where
  "voidMethod =
     Node ((plainInfo MethodDeclaration 79 81)
             \<lparr>getText := ''public deactivate(): void { this.isActive = false; }'',
              getName := Some ''deactivate'', isJSDocable := True,
              getJsDocs := [''Deactivate the user''],
              getReturnTypeNode := Some ''void'',
              getReturnType := \<lparr>isVoid = True, typeText = ''void''\<rparr>,
              modifiers := [''public'']\<rparr>)
       []"

text \<open>
  The declarations of \<^verbatim>\<open>const limit = 5\<close> and of
  \<^verbatim>\<open>const userService = new UserService()\<close>.
\<close>

definition literalVariable :: Node where
  "literalVariable =
     Node ((plainInfo VariableDeclaration 1 1)
             \<lparr>getText := ''limit = 5'', getName := Some ''limit'',
              getInitializer := Some \<lparr>exprKind = NumericLiteral, exprText = ''5''\<rparr>\<rparr>)
       [identifierNode ''limit'' 1, tokenNode ''EqualsToken'' 1,
        Node ((plainInfo NumericLiteral 1 1)\<lparr>getText := ''5''\<rparr>) []]"

definition computedVariable :: Node where
  "computedVariable =
     Node ((plainInfo VariableDeclaration 148 148)
             \<lparr>getText := ''userService = new UserService()'', getName := Some ''userService'',
              getInitializer :=
                Some \<lparr>exprKind = OtherKind ''NewExpression'', exprText = ''new UserService()''\<rparr>\<rparr>)
       [identifierNode ''userService'' 148, tokenNode ''EqualsToken'' 148, tokenNode ''NewExpression'' 148]"

text \<open>
  A file of three lines:
  \<^verbatim>\<open>/** Foo entity */ class Foo {\<close>, \<^verbatim>\<open>  private x: number = 3;\<close>, \<^verbatim>\<open>}\<close>
\<close>

definition sampleProperty :: Node where
  "sampleProperty =
     Node ((plainInfo PropertyDeclaration 2 2)
             \<lparr>getText := ''private x: number = 3;'', getName := Some ''x'', isJSDocable := True,
              getTypeNode := Some ''number'',
              getInitializer := Some \<lparr>exprKind = NumericLiteral, exprText = ''3''\<rparr>,
              modifiers := [''private'']\<rparr>)
       [Node (plainInfo (OtherKind ''SyntaxList'') 2 2) [tokenNode ''PrivateKeyword'' 2],
        identifierNode ''x'' 2, tokenNode ''ColonToken'' 2, tokenNode ''NumberKeyword'' 2,
        tokenNode ''EqualsToken'' 2,
        Node ((plainInfo NumericLiteral 2 2)\<lparr>getText := ''3''\<rparr>) [],
        Node (plainInfo SemicolonToken 2 2) []]"

definition sampleClass :: Node where
  "sampleClass =
     Node ((plainInfo ClassDeclaration 1 3)
             \<lparr>getText := ''class Foo { private x: number = 3; }'', isNameable := True,
              getName := Some ''Foo'', isJSDocable := True, getJsDocs := [''Foo entity'']\<rparr>)
       [tokenNode ''JSDoc'' 1, tokenNode ''ClassKeyword'' 1, identifierNode ''Foo'' 1,
        tokenNode ''OpenBraceToken'' 1,
        Node (plainInfo (OtherKind ''SyntaxList'') 2 2) [sampleProperty],
        tokenNode ''CloseBraceToken'' 3]"

definition sampleFile :: SourceFile where
  "sampleFile =
     \<lparr>getFilePath = ''/work/proj/a.ts'', fileEndLineNumber = 3, getStatements = [sampleClass]\<rparr>"

text \<open>An empty file, and the file \<^verbatim>\<open>;;\<close>: two empty statements, each holding its terminator.\<close>

definition emptyFile :: SourceFile where
  "emptyFile =
     \<lparr>getFilePath = ''/work/proj/empty.ts'', fileEndLineNumber = 1, getStatements = []\<rparr>"

definition emptyStatement :: "nat \<Rightarrow> Node" where
  "emptyStatement line =
     Node ((plainInfo (OtherKind ''EmptyStatement'') line line)\<lparr>getText := '';''\<rparr>)
       [Node ((plainInfo SemicolonToken line line)\<lparr>getText := '';''\<rparr>) []]"

definition semicolonsFile :: SourceFile where
  "semicolonsFile =
     \<lparr>getFilePath = ''/work/proj/semi.ts'', fileEndLineNumber = 1,
      getStatements = [emptyStatement 1, emptyStatement 1]\<rparr>"

text \<open>
  A world with the directory \<^verbatim>\<open>proj\<close>: \<^verbatim>\<open>a.ts\<close> is the sample file, the parser
  throws on \<^verbatim>\<open>b.ts\<close>; there is nothing at any other path. Its \<^verbatim>\<open>path\<close> functions
  are right for the plain relative paths used here.
\<close>

definition exampleEnv :: Env where
  "exampleEnv =
     \<lparr>fs_lookup = map_of
        [(''proj'', Dir [(''a.ts'', File), (''b.ts'', File), (''notes.md'', File),
                         (''node_modules'', Dir [(''x.ts'', File)])]),
         (''proj/a.ts'', File), (''proj/b.ts'', File), (''proj/notes.md'', File)],
      addSourceFileAtPath =
        (\<lambda>p. if p = ''proj/a.ts'' then Returned sampleFile
             else Threw (ErrorObject ''Error'' ''boom'')),
      path_join = (\<lambda>a b. a @ ''/'' @ b),
      path_basename = (\<lambda>p. rev (takeWhile (\<lambda>c. c \<noteq> CHR ''/'') (rev p))),
      path_extname =
        (\<lambda>p. if CHR ''.'' \<in> set p then CHR ''.'' # rev (takeWhile (\<lambda>c. c \<noteq> CHR ''.'') (rev p))
             else [])\<rparr>"

text \<open>
  A world with the directory \<^verbatim>\<open>lock\<close>, which holds the file \<^verbatim>\<open>a.ts\<close> and the
  sub-directory \<^verbatim>\<open>private\<close> that the process may not read.
\<close>

definition EACCES :: "string \<Rightarrow> string \<Rightarrow> Thrown" where
  "EACCES syscall p =
     ErrorObject ''Error'' (''EACCES: permission denied, '' @ syscall @ '' '' @ quoted p)"

definition lockedEnv :: Env where
  "lockedEnv =
     exampleEnv
       \<lparr>fs_lookup := map_of
          [(''lock'', Dir [(''a.ts'', File),
                           (''private'', UnreadableDir (EACCES ''scandir'' ''lock/private''))]),
           (''lock/a.ts'', File),
           (''lock/private'', UnreadableDir (EACCES ''scandir'' ''lock/private''))],
        addSourceFileAtPath := (\<lambda>p. Returned sampleFile)\<rparr>"

text \<open>
  A release that has the guards under the names of the first copy only, and one that
  has them under the names of the second copy as well.
\<close>

definition renamedRelease :: Release where
  "renamedRelease = \<lparr>has_isNameableNode = False, has_isJSDocableNode = False\<rparr>"


text \<open>The output node expected for the property \<^verbatim>\<open>x\<close> of the sample file.\<close>

definition samplePropertyOutput :: ASTNode where
  "samplePropertyOutput =
     ASTNode ''PropertyDeclaration'' None (Some 2) (Some 2) None None
       (Some
         [ASTNode ''SyntaxList'' None (Some 2) (Some 2) None None
            (Some [ASTNode ''PrivateKeyword'' None (Some 2) (Some 2) None None None None]) None,
          ASTNode ''Identifier'' (Some ''x'') (Some 2) (Some 2) None None None None,
          ASTNode ''ColonToken'' None (Some 2) (Some 2) None None None None,
          ASTNode ''NumberKeyword'' None (Some 2) (Some 2) None None None None,
          ASTNode ''EqualsToken'' None (Some 2) (Some 2) None None None None,
          ASTNode ''NumericLiteral'' None (Some 2) (Some 2) None None None None])
       (Some [(''type'', JString ''number''), (''visibility'', JString ''private'')])"

section \<open>Properties\<close>

subsection \<open>Attribute objects\<close>

lemma map_of_assign: "map_of (assign k v ps) = (map_of ps)(k \<mapsto> v)"
  by (induction ps) (auto simp: fun_upd_twist)

lemma keys_assign: "fst ` set (assign k v ps) = insert k (fst ` set ps)"
  by (simp add: dom_map_of_conv_image_fst[symmetric] map_of_assign)

lemma map_fst_assign:
  "map fst (assign k v ps) = (if k \<in> fst ` set ps then map fst ps else map fst ps @ [k])"
proof (induction ps)
  case Nil
  show ?case by simp
next
  case (Cons p ps)
  obtain k' v' where p: "p = (k', v')" by (cases p)
  show ?case
  proof (cases "k' = k")
    case True
    with p show ?thesis by simp
  next
    case False
    with p Cons show ?thesis by simp
  qed
qed

lemma distinct_assign: "distinct (map fst ps) \<Longrightarrow> distinct (map fst (assign k v ps))"
  by (simp add: map_fst_assign)

lemmas kind_guards =
  isFunctionDeclaration_def isMethodDeclaration_def isConstructorDeclaration_def
  isClassDeclaration_def isInterfaceDeclaration_def isVariableDeclaration_def
  isPropertyDeclaration_def

text \<open>A block whose guard fails leaves the object as it is.\<close>

lemma block_skips:
  "\<not> isClassDeclaration node \<Longrightarrow> classAttributes node a = a"
  "\<not> (isFunctionDeclaration node \<or> isMethodDeclaration node \<or> isConstructorDeclaration node)
     \<Longrightarrow> signatureAttributes node a = a"
  "\<not> isInterfaceDeclaration node \<Longrightarrow> interfaceAttributes node a = a"
  "\<not> isVariableDeclaration node \<Longrightarrow> variableAttributes node a = a"
  "\<not> isPropertyDeclaration node \<Longrightarrow> propertyAttributes node a = a"
  by (simp_all add: classAttributes_def signatureAttributes_def interfaceAttributes_def
      variableAttributes_def propertyAttributes_def)

lemma getNodeAttributes_signature:
  assumes "isFunctionDeclaration node \<or> isMethodDeclaration node \<or> isConstructorDeclaration node"
  shows "getNodeAttributes node = signatureAttributes node []"
proof -
  from assms have "getKind (info node) \<in> {FunctionDeclaration, MethodDeclaration, Constructor}"
    by (auto simp: kind_guards)
  then show ?thesis
    by (auto simp: getNodeAttributes_def block_skips kind_guards)
qed

lemma getNodeAttributes_variable:
  assumes "isVariableDeclaration node"
  shows "getNodeAttributes node = variableAttributes node []"
  using assms by (simp add: getNodeAttributes_def block_skips kind_guards)

lemma signatured_kinds:
  assumes "isFunctionDeclaration node \<or> isMethodDeclaration node \<or> isConstructorDeclaration node"
  shows "isSignaturedDeclaration node"
  using assms by (auto simp: kind_guards isSignaturedDeclaration_def)

text \<open>
  C1, as the code has it. For a function, method or constructor declaration the
  attributes hold the key \<^verbatim>\<open>returnType\<close> exactly when the return type that the
  parser resolves for the declaration is not \<^verbatim>\<open>void\<close>, and the value is the text
  of that resolved type. The written annotation is not consulted.
\<close>

theorem returnType_of_resolved_type:
  assumes "isFunctionDeclaration node \<or> isMethodDeclaration node \<or> isConstructorDeclaration node"
  shows "map_of (getNodeAttributes node) ''returnType'' =
           (if isVoid (getReturnType (info node)) then None
            else Some (JString (typeText (getReturnType (info node)))))"
  using assms signatured_kinds [OF assms]
  by (simp add: getNodeAttributes_signature signatureAttributes_def map_of_assign Let_def)

theorem returnType_of_resolved_type_witness:
  "isMethodDeclaration voidMethod \<and>
   map_of (getNodeAttributes voidMethod) ''returnType'' = None"
  using returnType_of_resolved_type [of voidMethod]
  by (simp add: voidMethod_def plainInfo_def isMethodDeclaration_def)

text \<open>
  C1 as stated fails: \<^verbatim>\<open>function f() { return 1; }\<close> carries no return type
  annotation, and its attributes hold \<^verbatim>\<open>returnType: "number"\<close>.
\<close>

theorem returnType_without_annotation:
  "isFunctionDeclaration inferredReturnFunction \<and>
   getReturnTypeNode (info inferredReturnFunction) = None \<and>
   map_of (getNodeAttributes inferredReturnFunction) ''returnType'' = Some (JString ''number'')"
proof -
  have k: "isFunctionDeclaration inferredReturnFunction"
    by (simp add: inferredReturnFunction_def plainInfo_def isFunctionDeclaration_def)
  then have "map_of (getNodeAttributes inferredReturnFunction) ''returnType'' =
               Some (JString ''number'')"
    by (simp add: getNodeAttributes_signature signatureAttributes_def signatured_kinds
        map_of_assign Let_def)
       (simp add: inferredReturnFunction_def plainInfo_def)
  with k show ?thesis
    by (simp add: inferredReturnFunction_def plainInfo_def)
qed

text \<open>
  C9. For a variable declaration the attributes hold \<^verbatim>\<open>hasInitializer: true\<close>
  exactly when there is an initializer (no key otherwise), and
  \<^verbatim>\<open>initializerValue\<close>, the text of the initializer, exactly when the initializer is
  a string literal, a numeric literal, \<^verbatim>\<open>true\<close> or \<^verbatim>\<open>false\<close>.
\<close>

theorem variable_initializer_attributes:
  assumes "isVariableDeclaration node"
  shows "map_of (getNodeAttributes node) ''hasInitializer'' =
           (case getInitializer (info node) of None \<Rightarrow> None | Some e \<Rightarrow> Some (JBool True))
       \<and> map_of (getNodeAttributes node) ''initializerValue'' =
           (case getInitializer (info node) of
              None \<Rightarrow> None
            | Some e \<Rightarrow>
                if exprKind e = StringLiteral \<or> exprKind e = NumericLiteral \<or>
                   exprKind e = TrueKeyword \<or> exprKind e = FalseKeyword
                then Some (JString (exprText e)) else None)"
  by (simp add: getNodeAttributes_variable [OF assms] variableAttributes_def assms
      map_of_assign Let_def isStringLiteral_def isNumericLiteral_def isTrueLiteral_def
      isFalseLiteral_def split: option.splits)

theorem variable_initializer_attributes_witness:
  "isVariableDeclaration literalVariable \<and>
   map_of (getNodeAttributes literalVariable) ''hasInitializer'' = Some (JBool True) \<and>
   map_of (getNodeAttributes literalVariable) ''initializerValue'' = Some (JString ''5'') \<and>
   isVariableDeclaration computedVariable \<and>
   map_of (getNodeAttributes computedVariable) ''hasInitializer'' = Some (JBool True) \<and>
   map_of (getNodeAttributes computedVariable) ''initializerValue'' = None"
  using variable_initializer_attributes [of literalVariable]
    variable_initializer_attributes [of computedVariable]
  by (simp add: literalVariable_def computedVariable_def plainInfo_def isVariableDeclaration_def)

subsection \<open>The walker as a function\<close>

lemma push_child_add: "push_child x p = add_children [x] p"
  by (cases p) (simp split: option.splits)

lemma add_children_Nil: "add_children [] a = a"
  by (cases a) simp

lemma add_children_append: "add_children ys (add_children xs a) = add_children (xs @ ys) a"
  by (cases a) (simp split: option.splits)

lemma walker_view:
  "processNode n parent = add_children (normalized n) parent"
  "processNodeChildren_loop cs a = add_children (concat (map normalized cs)) a"
proof (induction n parent and cs a rule: processNode_processNodeChildren_loop.induct)
  case (1 i cs parentASTNode)
  then show ?case
    by (simp add: push_child_add add_children_Nil bareNode_def Let_def)
next
  case (2 astNode)
  show ?case by (simp add: add_children_Nil)
next
  case (3 child rest astNode)
  then show ?case by (simp add: add_children_append)
qed

lemma root_view:
  "createNodeFromSourceFile bn sf =
     ASTNode ''SourceFile'' (Some (bn (getFilePath sf))) (Some 1) (Some (fileEndLineNumber sf))
       None None (Some (concat (map normalized (getStatements sf)))) None"
  by (simp add: createNodeFromSourceFile_def walker_view Let_def)

lemma details_fields:
  "nodeType (addNodeSpecificDetails node a) = nodeType a"
  "startLine (addNodeSpecificDetails node a) = startLine a"
  "endLine (addNodeSpecificDetails node a) = endLine a"
  "children (addNodeSpecificDetails node a) = children a"
  by (cases a; simp add: addNodeSpecificDetails_def Let_def split: option.splits)+

lemma details_attributes:
  "attributes a = None \<Longrightarrow>
   attributes (addNodeSpecificDetails node a) =
     (if getNodeAttributes node = [] then None else Some (getNodeAttributes node))"
  by (cases a) (simp add: addNodeSpecificDetails_def Let_def split: option.splits)

lemma add_children_fields:
  "nodeType (add_children ys a) = nodeType a"
  "startLine (add_children ys a) = startLine a"
  "endLine (add_children ys a) = endLine a"
  "attributes (add_children ys a) = attributes a"
  by (cases a; simp)+

lemma add_children_children:
  "children (add_children ys a) = (if ys = [] then children a else Some (kids a @ ys))"
  by (cases a) simp

lemma kids_children: "kids a = (case children a of None \<Rightarrow> [] | Some cs \<Rightarrow> cs)"
  by (cases a) simp

lemma kids_add_children: "kids (add_children ys a) = kids a @ ys"
  by (cases a) (simp split: option.splits)

lemma kids_details: "kids (addNodeSpecificDetails node a) = kids a"
  by (simp add: kids_children details_fields)

lemma normalized_node_fields:
  assumes "k \<in> set (normalized n)"
  shows "nodeType k = getKindName (getKind (info n))"
    and "startLine k = Some (getStartLineNumber (info n))"
    and "endLine k = Some (getEndLineNumber (info n))"
    and "attributes k = (if getNodeAttributes n = [] then None else Some (getNodeAttributes n))"
    and "children k = (if concat (map normalized (getChildren n)) = [] then None
                       else Some (concat (map normalized (getChildren n))))"
    and "kids k = concat (map normalized (getChildren n))"
  using assms
  by (cases n; auto simp: add_children_fields add_children_children details_fields
      details_attributes kids_add_children kids_details bareNode_def split: if_splits)+

lemmas example_nodes =
  sampleFile_def sampleClass_def sampleProperty_def emptyFile_def semicolonsFile_def
  emptyStatement_def tokenNode_def
  identifierNode_def plainInfo_def exampleEnv_def

lemmas normalizer_defs =
  shouldSkipNode_def skipKinds_def addNodeSpecificDetails_def getNodeName_def
  getNodeDocComment_def trim_def stripLeading.simps leadingCode_def whiteSpaceCodes_def
  getNodeAttributes_def classAttributes_def
  signatureAttributes_def interfaceAttributes_def variableAttributes_def
  propertyAttributes_def kind_guards isIdentifier_def hasModifier_def bareNode_def

subsection \<open>Noise filtering\<close>

lemma kindsOf_eq: "kindsOf a = KindTree (nodeType a) (map kindsOf (kids a))"
  by (cases a) (simp split: option.splits)

lemma shouldSkip_noise: "shouldSkipNode n = isNoiseKind (getKind (info n))"
  by (auto simp: shouldSkipNode_def skipKinds_def isNoiseKind_def)

lemma kinds_normalized: "map kindsOf (normalized n) = keptKinds n"
proof (induction n rule: normalized.induct)
  case (1 i cs)
  show ?case
  proof (cases "isNoiseKind (getKind i)")
    case True
    then show ?thesis by (simp add: shouldSkip_noise)
  next
    case False
    have "map kindsOf (concat (map normalized cs)) = concat (map keptKinds cs)"
      using 1 False by (simp add: shouldSkip_noise map_concat cong: map_cong)
    then show ?thesis
      using False
      by (simp add: shouldSkip_noise kindsOf_eq [of "add_children _ _"] kids_add_children
          kids_details add_children_fields details_fields bareNode_def)
  qed
qed

lemma kinds_normalized_list:
  "map kindsOf (concat (map normalized cs)) = concat (map keptKinds cs)"
  by (induction cs) (simp_all add: kinds_normalized)


lemma length_normalized:
  "length (concat (map normalized cs)) =
     length (filter (\<lambda>s. \<not> isNoiseKind (getKind (info s))) cs)"
proof (induction cs)
  case Nil
  show ?case by simp
next
  case (Cons c cs)
  have "length (normalized c) = (if isNoiseKind (getKind (info c)) then 0 else 1)"
    by (cases c) (simp add: shouldSkip_noise)
  with Cons show ?case by simp
qed

text \<open>
  C2, as the code has it. The tree of kinds below the root of the output is the tree
  of kinds of the statements with every node of a noise kind (end-of-file marker,
  statement terminator, argument separator) removed together with all below it, and
  every other node kept in place. The root has one child for each top-level statement
  that is not itself of a noise kind, so its list of children is empty only when
  there is no such statement.
\<close>

theorem noise_filtering:
  "\<exists>top. children (createNodeFromSourceFile bn sf) = Some top \<and>
         map kindsOf top = concat (map keptKinds (getStatements sf)) \<and>
         length top =
           length (filter (\<lambda>s. \<not> isNoiseKind (getKind (info s))) (getStatements sf))"
  by (simp add: root_view kinds_normalized_list length_normalized)

theorem noise_filtering_witness:
  "children (createNodeFromSourceFile (path_basename exampleEnv) emptyFile) = Some [] \<and>
   (\<exists>top. children (createNodeFromSourceFile (path_basename exampleEnv) sampleFile) = Some top \<and>
      length top = 1 \<and>
      map kindsOf top =
        [KindTree ''ClassDeclaration''
           [KindTree ''JSDoc'' [], KindTree ''ClassKeyword'' [], KindTree ''Identifier'' [],
            KindTree ''OpenBraceToken'' [],
            KindTree ''SyntaxList''
              [KindTree ''PropertyDeclaration''
                 [KindTree ''SyntaxList'' [KindTree ''PrivateKeyword'' []],
                  KindTree ''Identifier'' [], KindTree ''ColonToken'' [],
                  KindTree ''NumberKeyword'' [], KindTree ''EqualsToken'' [],
                  KindTree ''NumericLiteral'' []]],
            KindTree ''CloseBraceToken'' []]])"
proof -
  have "children (createNodeFromSourceFile (path_basename exampleEnv) emptyFile) = Some []"
    using noise_filtering [of "path_basename exampleEnv" emptyFile]
    by (simp add: emptyFile_def)
  moreover
  from noise_filtering [of "path_basename exampleEnv" sampleFile] obtain top
    where c: "children (createNodeFromSourceFile (path_basename exampleEnv) sampleFile) = Some top"
      and k: "map kindsOf top = concat (map keptKinds (getStatements sampleFile))"
      and l: "length top =
                length (filter (\<lambda>s. \<not> isNoiseKind (getKind (info s))) (getStatements sampleFile))"
    by blast
  from l have "length top = 1"
    by (simp add: example_nodes isNoiseKind_def)
  moreover from k have "map kindsOf top =
        [KindTree ''ClassDeclaration''
           [KindTree ''JSDoc'' [], KindTree ''ClassKeyword'' [], KindTree ''Identifier'' [],
            KindTree ''OpenBraceToken'' [],
            KindTree ''SyntaxList''
              [KindTree ''PropertyDeclaration''
                 [KindTree ''SyntaxList'' [KindTree ''PrivateKeyword'' []],
                  KindTree ''Identifier'' [], KindTree ''ColonToken'' [],
                  KindTree ''NumberKeyword'' [], KindTree ''EqualsToken'' [],
                  KindTree ''NumericLiteral'' []]],
            KindTree ''CloseBraceToken'' []]]"
    by (simp add: example_nodes isNoiseKind_def)
  ultimately show ?thesis using c by simp
qed

text \<open>
  C2 as stated fails: the file \<^verbatim>\<open>;;\<close> holds statement terminators only, the parser
  hands over two empty statements, and the root gets two children.
\<close>

theorem terminators_are_kept_as_statements:
  "children (createNodeFromSourceFile (path_basename exampleEnv) semicolonsFile) =
     Some [ASTNode ''EmptyStatement'' None (Some 1) (Some 1) None None None None,
           ASTNode ''EmptyStatement'' None (Some 1) (Some 1) None None None None]"
  by (simp add: root_view example_nodes normalizer_defs)

subsection \<open>Span containment\<close>






subsection \<open>Attributes and children of the output nodes\<close>

lemma nodes_of_eq: "nodes_of a = a # concat (map nodes_of (kids a))"
  by (cases a) (simp split: option.splits)

lemma nodes_of_descendants: "nodes_of a = a # descendants a"
  by (simp add: descendants_def nodes_of_eq [of a])

lemma kind_cases:
  assumes "getKind i = ClassDeclaration \<Longrightarrow> P"
    and "getKind i \<in> {FunctionDeclaration, MethodDeclaration, Constructor} \<Longrightarrow> P"
    and "getKind i = InterfaceDeclaration \<Longrightarrow> P"
    and "getKind i = VariableDeclaration \<Longrightarrow> P"
    and "getKind i = PropertyDeclaration \<Longrightarrow> P"
    and "getKind i \<notin> {ClassDeclaration, FunctionDeclaration, MethodDeclaration, Constructor,
           InterfaceDeclaration, VariableDeclaration, PropertyDeclaration} \<Longrightarrow> P"
  shows P
  using assms by blast

lemma class_keys:
  "fst ` set (classAttributes node a) \<subseteq> fst ` set a \<union> {''extends'', ''implements''}"
  by (auto simp: classAttributes_def Let_def keys_assign split: option.splits)

lemma signature_keys:
  "fst ` set (signatureAttributes node a) \<subseteq> fst ` set a \<union> {''parameters'', ''returnType''}"
  by (auto simp: signatureAttributes_def Let_def keys_assign split: option.splits)

lemma interface_keys:
  "fst ` set (interfaceAttributes node a) \<subseteq> fst ` set a \<union> {''extends''}"
  by (auto simp: interfaceAttributes_def Let_def keys_assign split: option.splits)

lemma variable_keys:
  "fst ` set (variableAttributes node a) \<subseteq>
     fst ` set a \<union> {''type'', ''hasInitializer'', ''initializerValue''}"
  by (auto simp: variableAttributes_def Let_def keys_assign split: option.splits)

lemma property_keys:
  "fst ` set (propertyAttributes node a) \<subseteq>
     fst ` set a \<union> {''type'', ''visibility'', ''static'', ''readonly''}"
  by (auto simp: propertyAttributes_def Let_def keys_assign split: option.splits)

lemma attribute_keys:
  "fst ` set (getNodeAttributes node) \<subseteq> set (vocabulary (getKindName (getKind (info node))))"
proof (rule kind_cases [of "info node"])
  assume k: "getKind (info node) = ClassDeclaration"
  then have "getNodeAttributes node = classAttributes node []"
    by (simp add: getNodeAttributes_def block_skips kind_guards)
  with class_keys [of node "[]"] k show ?thesis by (simp add: vocabulary_def)
next
  assume k: "getKind (info node) \<in> {FunctionDeclaration, MethodDeclaration, Constructor}"
  then have "getNodeAttributes node = signatureAttributes node []"
    by (auto simp: getNodeAttributes_def block_skips kind_guards)
  with signature_keys [of node "[]"] k show ?thesis by (auto simp: vocabulary_def)
next
  assume k: "getKind (info node) = InterfaceDeclaration"
  then have "getNodeAttributes node = interfaceAttributes node []"
    by (simp add: getNodeAttributes_def block_skips kind_guards)
  with interface_keys [of node "[]"] k show ?thesis by (simp add: vocabulary_def)
next
  assume k: "getKind (info node) = VariableDeclaration"
  then have "getNodeAttributes node = variableAttributes node []"
    by (simp add: getNodeAttributes_def block_skips kind_guards)
  with variable_keys [of node "[]"] k show ?thesis by (simp add: vocabulary_def)
next
  assume k: "getKind (info node) = PropertyDeclaration"
  then have "getNodeAttributes node = propertyAttributes node []"
    by (simp add: getNodeAttributes_def block_skips kind_guards)
  with property_keys [of node "[]"] k show ?thesis by (simp add: vocabulary_def)
next
  assume k: "getKind (info node) \<notin> {ClassDeclaration, FunctionDeclaration, MethodDeclaration,
           Constructor, InterfaceDeclaration, VariableDeclaration, PropertyDeclaration}"
  then have "getNodeAttributes node = []"
    by (simp add: getNodeAttributes_def block_skips kind_guards)
  then show ?thesis by simp
qed

lemma normalized_node_ok:
  assumes "k \<in> set (normalized n)"
  shows "attributesInVocabulary k \<and> attributes k \<noteq> Some [] \<and> children k \<noteq> Some []"
  using attribute_keys [of n]
  by (simp add: normalized_node_fields [OF assms] attributesInVocabulary_def)

lemma normalized_tree_ok:
  "m \<in> set (concat (map nodes_of (normalized n))) \<Longrightarrow>
     attributesInVocabulary m \<and> attributes m \<noteq> Some [] \<and> children m \<noteq> Some []"
proof (induction n arbitrary: m rule: normalized.induct)
  case (1 i cs)
  from "1.prems" obtain k where k: "k \<in> set (normalized (Node i cs))" and m: "m \<in> set (nodes_of k)"
    by auto
  from k have skip: "\<not> shouldSkipNode (Node i cs)" by (auto split: if_splits)
  from m have "m = k \<or> m \<in> set (concat (map nodes_of (kids k)))"
    by (subst (asm) nodes_of_eq) simp
  then show ?case
  proof
    assume "m = k"
    with normalized_node_ok [OF k] show ?thesis by simp
  next
    assume "m \<in> set (concat (map nodes_of (kids k)))"
    then obtain c where c: "c \<in> set cs" and mc: "m \<in> set (concat (map nodes_of (normalized c)))"
      by (auto simp: normalized_node_fields(6) [OF k])
    from "1.IH" [OF skip c mc] show ?thesis .
  qed
qed

lemma descendants_root:
  "m \<in> set (descendants (createNodeFromSourceFile bn sf)) \<Longrightarrow>
     \<exists>s \<in> set (getStatements sf). m \<in> set (concat (map nodes_of (normalized s)))"
  by (auto simp: descendants_def root_view)

lemma sample_output:
  "createNodeFromSourceFile (path_basename exampleEnv) sampleFile =
     ASTNode ''SourceFile'' (Some ''a.ts'') (Some 1) (Some 3) None None
       (Some
         [ASTNode ''ClassDeclaration'' (Some ''Foo'') (Some 1) (Some 3) None (Some ''Foo entity'')
            (Some
              [ASTNode ''JSDoc'' None (Some 1) (Some 1) None None None None,
               ASTNode ''ClassKeyword'' None (Some 1) (Some 1) None None None None,
               ASTNode ''Identifier'' (Some ''Foo'') (Some 1) (Some 1) None None None None,
               ASTNode ''OpenBraceToken'' None (Some 1) (Some 1) None None None None,
               ASTNode ''SyntaxList'' None (Some 2) (Some 2) None None
                 (Some [samplePropertyOutput]) None,
               ASTNode ''CloseBraceToken'' None (Some 3) (Some 3) None None None None])
            None])
       None"
  by (simp add: root_view example_nodes normalizer_defs samplePropertyOutput_def)

text \<open>
  C7. Every node of the output tree carries only attribute keys of the vocabulary
  of its kind: class \<^verbatim>\<open>extends\<close>, \<^verbatim>\<open>implements\<close>; function, method, constructor
  \<^verbatim>\<open>parameters\<close>, \<^verbatim>\<open>returnType\<close>; interface \<^verbatim>\<open>extends\<close>; variable \<^verbatim>\<open>type\<close>,
  \<^verbatim>\<open>hasInitializer\<close>, \<^verbatim>\<open>initializerValue\<close>; property \<^verbatim>\<open>type\<close>, \<^verbatim>\<open>visibility\<close>,
  \<^verbatim>\<open>static\<close>, \<^verbatim>\<open>readonly\<close>; any other kind none.
\<close>

theorem vocabulary_closure:
  "\<forall>m \<in> set (nodes_of (createNodeFromSourceFile bn sf)). attributesInVocabulary m"
proof
  fix m assume "m \<in> set (nodes_of (createNodeFromSourceFile bn sf))"
  then have "m = createNodeFromSourceFile bn sf \<or>
             m \<in> set (descendants (createNodeFromSourceFile bn sf))"
    by (simp add: nodes_of_descendants)
  then show "attributesInVocabulary m"
  proof
    assume "m = createNodeFromSourceFile bn sf"
    then show ?thesis by (simp add: root_view attributesInVocabulary_def)
  next
    assume "m \<in> set (descendants (createNodeFromSourceFile bn sf))"
    from descendants_root [OF this] normalized_tree_ok show ?thesis by blast
  qed
qed

theorem vocabulary_closure_witness:
  "samplePropertyOutput \<in>
     set (nodes_of (createNodeFromSourceFile (path_basename exampleEnv) sampleFile)) \<and>
   attributes samplePropertyOutput =
     Some [(''type'', JString ''number''), (''visibility'', JString ''private'')] \<and>
   attributesInVocabulary samplePropertyOutput"
proof -
  have "samplePropertyOutput \<in>
          set (nodes_of (createNodeFromSourceFile (path_basename exampleEnv) sampleFile))"
    by (simp add: sample_output) (simp add: samplePropertyOutput_def)
  moreover from this have "attributesInVocabulary samplePropertyOutput"
    using vocabulary_closure [of "path_basename exampleEnv" sampleFile] by blast
  ultimately show ?thesis by (simp add: samplePropertyOutput_def)
qed

text \<open>
  C8. The root always carries a \<^verbatim>\<open>children\<close> field. No node of the output tree
  carries an empty \<^verbatim>\<open>attributes\<close> object, and no node below the root carries an
  empty \<^verbatim>\<open>children\<close> list: a field that would be empty is left out.
\<close>

theorem empty_fields_omitted:
  "children (createNodeFromSourceFile bn sf) \<noteq> None \<and>
   attributes (createNodeFromSourceFile bn sf) \<noteq> Some [] \<and>
   (\<forall>m \<in> set (descendants (createNodeFromSourceFile bn sf)).
      attributes m \<noteq> Some [] \<and> children m \<noteq> Some [])"
proof -
  have "attributes m \<noteq> Some [] \<and> children m \<noteq> Some []"
    if "m \<in> set (descendants (createNodeFromSourceFile bn sf))" for m
    using descendants_root [OF that] normalized_tree_ok by blast
  then show ?thesis by (simp add: root_view)
qed

theorem empty_fields_omitted_witness:
  "children (createNodeFromSourceFile (path_basename exampleEnv) emptyFile) = Some [] \<and>
   ASTNode ''CloseBraceToken'' None (Some 3) (Some 3) None None None None \<in>
     set (descendants (createNodeFromSourceFile (path_basename exampleEnv) sampleFile)) \<and>
   samplePropertyOutput \<in>
     set (descendants (createNodeFromSourceFile (path_basename exampleEnv) sampleFile)) \<and>
   attributes samplePropertyOutput \<noteq> Some [] \<and> children samplePropertyOutput \<noteq> Some []"
proof -
  have "children (createNodeFromSourceFile (path_basename exampleEnv) emptyFile) = Some []"
    using empty_fields_omitted [of "path_basename exampleEnv" emptyFile]
    by (simp add: root_view example_nodes normalizer_defs)
  moreover have mem: "samplePropertyOutput \<in>
      set (descendants (createNodeFromSourceFile (path_basename exampleEnv) sampleFile))"
    by (simp add: sample_output descendants_def) (simp add: samplePropertyOutput_def)
  moreover have
    "ASTNode ''CloseBraceToken'' None (Some 3) (Some 3) None None None None \<in>
       set (descendants (createNodeFromSourceFile (path_basename exampleEnv) sampleFile))"
    by (simp add: sample_output descendants_def)
  moreover from mem
  have "attributes samplePropertyOutput \<noteq> Some [] \<and> children samplePropertyOutput \<noteq> Some []"
    using empty_fields_omitted [of "path_basename exampleEnv" sampleFile] by blast
  ultimately show ?thesis by simp
qed

subsection \<open>The single-file pipeline\<close>

lemma parseTypeScriptFile_cases:
  "parseTypeScriptFile env p =
     (case fs_lookup env p of
        None \<Rightarrow> (Returned (Inl (''File not found: '' @ p)), [])
      | Some t \<Rightarrow>
          (case addSourceFileAtPath env p of
             Threw e \<Rightarrow>
               (Returned (Inl (''Failed to parse '' @ p @ '': '' @ errorDescription e)),
                [AddSourceFile p])
           | Returned sf \<Rightarrow>
               (Returned (Inr (createNodeFromSourceFile (path_basename env) sf)),
                [AddSourceFile p])))"
  by (simp add: parseTypeScriptFile_def fs_access_def project_addSourceFileAtPath_def
      split: option.splits outcome.splits)

lemma parseTypeScriptFile_returns: "\<exists>r evs. parseTypeScriptFile env p = (Returned r, evs)"
  by (simp add: parseTypeScriptFile_cases split: option.splits outcome.splits)

text \<open>
  C4. \<^verbatim>\<open>parseTypeScriptFile\<close> (first copy) never throws. For a path at which there
  is nothing it returns \<^verbatim>\<open>{error: "File not found: <path>"}\<close> and the parser is not
  called. When the parser throws, it returns an envelope whose message is
  \<^verbatim>\<open>"Failed to parse <path>: <description>"\<close>, which contains the path and the
  description of the failure.
\<close>

theorem single_file_never_throws:
  "(\<exists>r evs. parseTypeScriptFile env p = (Returned r, evs)) \<and>
   (fs_lookup env p = None \<longrightarrow>
      parseTypeScriptFile env p = (Returned (Inl (''File not found: '' @ p)), [])) \<and>
   (\<forall>t e. fs_lookup env p = Some t \<and> addSourceFileAtPath env p = Threw e \<longrightarrow>
      (\<exists>msg. parseTypeScriptFile env p = (Returned (Inl msg), [AddSourceFile p]) \<and>
             msg = ''Failed to parse '' @ p @ '': '' @ errorDescription e \<and>
             sublist p msg \<and> sublist (errorDescription e) msg))"
proof -
  have "sublist p (''Failed to parse '' @ p @ '': '' @ d)" for d
    by (rule sublist_appendI)
  moreover have "sublist d (''Failed to parse '' @ p @ '': '' @ d)" for d
    using sublist_appendI [of d "''Failed to parse '' @ p @ '': ''" "[]"] by simp
  ultimately show ?thesis
    using parseTypeScriptFile_returns [of env p]
    by (simp add: parseTypeScriptFile_cases)
qed

theorem single_file_never_throws_witness:
  "parseTypeScriptFile exampleEnv ''proj/c.ts'' =
     (Returned (Inl ''File not found: proj/c.ts''), []) \<and>
   parseTypeScriptFile exampleEnv ''proj/b.ts'' =
     (Returned (Inl ''Failed to parse proj/b.ts: boom''), [AddSourceFile ''proj/b.ts'']) \<and>
   sublist ''proj/b.ts'' ''Failed to parse proj/b.ts: boom'' \<and>
   sublist ''boom'' ''Failed to parse proj/b.ts: boom''"
  using single_file_never_throws [of exampleEnv "''proj/c.ts''"]
    single_file_never_throws [of exampleEnv "''proj/b.ts''"]
  by (simp add: exampleEnv_def)

subsection \<open>The walker of the second copy\<close>












subsection \<open>The directory pipeline\<close>

lemma findFiles_noDirectory:
  assumes "noDirectoryAt env p"
  shows "\<exists>e. findFilesRecursively env p exts = (Some e, [], [Readdir p])"
proof (cases "fs_lookup env p")
  case None
  then show ?thesis by (simp add: findFilesRecursively_def)
next
  case (Some t)
  with assms have "\<not> isDirectory t" by (simp add: noDirectoryAt_def)
  with Some show ?thesis by (cases t) (simp_all add: findFilesRecursively_def)
qed

lemma parseDirectory2_on_directory:
  assumes "\<not> noDirectoryAt env p"
  shows "\<exists>m evs. parseDirectory2 lib env p exts = (Returned (Results m), evs)"
proof -
  from assms obtain t where t: "fs_lookup env p = Some t" "isDirectory t"
    by (auto simp: noDirectoryAt_def split: option.splits)
  obtain files evs where f: "findFilesRecursively2 env p exts = (files, evs)"
    by (cases "findFilesRecursively2 env p exts")
  obtain project results evs' where a: "add_files env files [] [] evs = (project, results, evs')"
    by (cases "add_files env files [] [] evs")
  show ?thesis
    by (simp add: parseDirectory2_def existsSync_def statSync_def t f a)
qed

text \<open>
  C3, as the code has it. Let the path not exist or not be a directory. The second
  copy of \<^verbatim>\<open>parseDirectory\<close> returns the top-level envelope
  \<^verbatim>\<open>{error: "Directory not found: <path>"}\<close> and has read no directory and called no
  parser; on a directory it returns a mapping, so the two shapes differ. The first
  copy does not validate the path: its first directory read throws, and it returns
  the mapping with the one entry \<^verbatim>\<open><path>: {error: "Failed to parse directory <path>: <reason>"}\<close>,
  which is the shape of a per-file error entry; it has called no parser.
\<close>

theorem directory_level_failure:
  "(noDirectoryAt env p \<longrightarrow>
      parseDirectory2 lib env p exts =
        (Returned (TopLevelError (''Directory not found: '' @ p)), []) \<and>
      (\<exists>reason. parseDirectory env p exts =
         (Returned (Results [(p, Inl (''Failed to parse directory '' @ p @ '': '' @ reason))]),
          [Readdir p]))) \<and>
   (\<not> noDirectoryAt env p \<longrightarrow>
      (\<exists>r evs. parseDirectory2 lib env p exts = (Returned r, evs) \<and> \<not> isTopLevelError r))"
proof (intro conjI impI)
  assume no: "noDirectoryAt env p"
  then show "parseDirectory2 lib env p exts =
               (Returned (TopLevelError (''Directory not found: '' @ p)), [])"
    by (auto simp: parseDirectory2_def noDirectoryAt_def existsSync_def statSync_def
        split: option.splits)
  from findFiles_noDirectory [OF no] obtain e
    where "findFilesRecursively env p exts = (Some e, [], [Readdir p])" by blast
  then show "\<exists>reason. parseDirectory env p exts =
           (Returned (Results [(p, Inl (''Failed to parse directory '' @ p @ '': '' @ reason))]),
            [Readdir p])"
    by (simp add: parseDirectory_def)
next
  assume "\<not> noDirectoryAt env p"
  from parseDirectory2_on_directory [OF this] obtain m evs
    where "parseDirectory2 lib env p exts = (Returned (Results m), evs)" by blast
  then show "\<exists>r evs. parseDirectory2 lib env p exts = (Returned r, evs) \<and> \<not> isTopLevelError r"
    by simp
qed

theorem directory_level_failure_witness:
  "noDirectoryAt exampleEnv ''proj/a.ts'' \<and>
   parseDirectory2 renamedRelease exampleEnv ''proj/a.ts'' [''.ts'', ''.tsx''] =
     (Returned (TopLevelError ''Directory not found: proj/a.ts''), []) \<and>
   (\<exists>reason. parseDirectory exampleEnv ''proj/a.ts'' [''.ts'', ''.tsx''] =
      (Returned (Results [(''proj/a.ts'', Inl (''Failed to parse directory proj/a.ts: '' @ reason))]),
       [Readdir ''proj/a.ts''])) \<and>
   \<not> noDirectoryAt exampleEnv ''proj'' \<and>
   (\<exists>r evs. parseDirectory2 renamedRelease exampleEnv ''proj'' [''.ts'', ''.tsx''] = (Returned r, evs) \<and>
      \<not> isTopLevelError r)"
proof -
  have a: "noDirectoryAt exampleEnv ''proj/a.ts''"
    by (simp add: noDirectoryAt_def exampleEnv_def)
  have b: "\<not> noDirectoryAt exampleEnv ''proj''"
    by (simp add: noDirectoryAt_def exampleEnv_def)
  from a b
    directory_level_failure [of exampleEnv "''proj/a.ts''" renamedRelease "[''.ts'', ''.tsx'']"]
    directory_level_failure [of exampleEnv "''proj''" renamedRelease "[''.ts'', ''.tsx'']"]
  show ?thesis by simp
qed

text \<open>
  C3 as stated fails on the first copy: for the missing path \<^verbatim>\<open>missing\<close> it returns
  a mapping with one entry under the key \<^verbatim>\<open>missing\<close>, not a top-level envelope.
\<close>

theorem directory_failure_is_an_entry:
  "noDirectoryAt exampleEnv ''missing'' \<and>
   parseDirectory exampleEnv ''missing'' [''.ts'', ''.tsx''] =
     (Returned (Results
        [(''missing'', Inl (''Failed to parse directory missing: '' @
                           errorDescription (ENOENT ''scandir'' ''missing'')))]),
      [Readdir ''missing'']) \<and>
   \<not> isTopLevelError (Results
        [(''missing'', Inl (''Failed to parse directory missing: '' @
                           errorDescription (ENOENT ''scandir'' ''missing'')))])"
  by (simp add: noDirectoryAt_def exampleEnv_def parseDirectory_def findFilesRecursively_def)

subsection \<open>The entries of a directory run\<close>

lemma andThen_unit: "andThen (Returned x, []) f = f x"
  by (cases "f x") simp

lemma andThen_assoc: "andThen (andThen m f) g = andThen m (\<lambda>x. andThen (f x) g)"
proof (cases m)
  case (Pair r evs)
  show ?thesis
  proof (cases r)
    case (Returned x)
    obtain r1 e1 where f: "f x = (r1, e1)" by (cases "f x")
    show ?thesis
    proof (cases r1)
      case (Returned y)
      obtain r2 e2 where g: "g y = (r2, e2)" by (cases "g y")
      show ?thesis using Pair \<open>r = Returned x\<close> f Returned g by simp
    next
      case (Threw e)
      show ?thesis using Pair \<open>r = Returned x\<close> f Threw by simp
    qed
  next
    case (Threw e)
    with Pair show ?thesis by simp
  qed
qed

lemma process_chunk_append:
  "process_chunk env (xs @ ys) results =
     andThen (process_chunk env xs results) (\<lambda>results'. process_chunk env ys results')"
  by (induction xs arbitrary: results) (simp_all add: andThen_unit andThen_assoc)

text \<open>The chunks, one after the other, process every file from index \<open>i\<close> on.\<close>

lemma chunk_loop_all:
  "chunk_loop env files i results = process_chunk env (drop i files) results"
proof (induction env files i results rule: chunk_loop.induct)
  case (1 env files i results)
  show ?case
  proof (cases "i < length files")
    case True
    have split: "slice i (i + CONCURRENCY_LIMIT) files @ drop (i + CONCURRENCY_LIMIT) files =
                   drop i files"
      using append_take_drop_id [of CONCURRENCY_LIMIT "drop i files"]
      by (simp add: slice_def add.commute)
    have "chunk_loop env files i results =
            andThen (process_chunk env (slice i (i + CONCURRENCY_LIMIT) files) results)
              (\<lambda>results'. process_chunk env (drop (i + CONCURRENCY_LIMIT) files) results')"
    proof -
      have "chunk_loop env files (i + CONCURRENCY_LIMIT) =
              process_chunk env (drop (i + CONCURRENCY_LIMIT) files)"
        using "1.IH" [OF True] by (intro ext)
      with True show ?thesis by (subst chunk_loop.simps) simp
    qed
    also have "\<dots> = process_chunk env (drop i files) results"
      by (simp add: process_chunk_append [symmetric] split)
    finally show ?thesis .
  next
    case False
    then show ?thesis by (subst chunk_loop.simps) simp
  qed
qed

lemma process_chunk_spec:
  "\<exists>m evs. process_chunk env files results = (Returned m, evs) \<and>
     fst ` set m = fst ` set results \<union> set files \<and>
     (distinct (map fst results) \<longrightarrow> distinct (map fst m)) \<and>
     (\<forall>f. f \<notin> set files \<longrightarrow> map_of m f = map_of results f) \<and>
     (\<forall>f \<in> set files. \<exists>r evs'. parseTypeScriptFile env f = (Returned r, evs') \<and>
                                map_of m f = Some r)"
proof (induction files arbitrary: results)
  case Nil
  show ?case by simp
next
  case (Cons fl rest)
  obtain r0 e0 where p: "parseTypeScriptFile env fl = (Returned r0, e0)"
    using parseTypeScriptFile_returns by blast
  from Cons [of "assign fl r0 results"] obtain m evs
    where run: "process_chunk env rest (assign fl r0 results) = (Returned m, evs)"
      and keys: "fst ` set m = fst ` set (assign fl r0 results) \<union> set rest"
      and dist: "distinct (map fst (assign fl r0 results)) \<longrightarrow> distinct (map fst m)"
      and other: "\<forall>f. f \<notin> set rest \<longrightarrow> map_of m f = map_of (assign fl r0 results) f"
      and mine: "\<forall>f \<in> set rest. \<exists>r evs'. parseTypeScriptFile env f = (Returned r, evs') \<and>
                                map_of m f = Some r"
    by blast
  have "process_chunk env (fl # rest) results = (Returned m, e0 @ evs)"
    by (simp add: p run)
  moreover have "fst ` set m = fst ` set results \<union> set (fl # rest)"
    using keys by (simp add: keys_assign)
  moreover have "distinct (map fst results) \<longrightarrow> distinct (map fst m)"
    using dist by (simp add: distinct_assign)
  moreover have "\<forall>f. f \<notin> set (fl # rest) \<longrightarrow> map_of m f = map_of results f"
    using other by (simp add: map_of_assign)
  moreover have "\<forall>f \<in> set (fl # rest). \<exists>r evs'. parseTypeScriptFile env f = (Returned r, evs') \<and>
                                map_of m f = Some r"
  proof
    fix f assume f: "f \<in> set (fl # rest)"
    show "\<exists>r evs'. parseTypeScriptFile env f = (Returned r, evs') \<and> map_of m f = Some r"
    proof (cases "f \<in> set rest")
      case True
      with mine show ?thesis by blast
    next
      case False
      with f have "f = fl" by simp
      with False other p show ?thesis by (simp add: map_of_assign)
    qed
  qed
  ultimately show ?case by (intro exI conjI)
qed

lemma directory_entries_complete:
  assumes "findFilesRecursively env dirPath exts = (None, files, evs)"
  shows "\<exists>m evs'. parseDirectory env dirPath exts = (Returned (Results m), evs') \<and>
           distinct (map fst m) \<and> set (map fst m) = set files \<and>
           (\<forall>f \<in> set files. \<exists>r evs''. parseTypeScriptFile env f = (Returned r, evs'') \<and>
                                     map_of m f = Some r)"
proof -
  from process_chunk_spec [of env files "[]"] obtain m evs'
    where run: "process_chunk env files [] = (Returned m, evs')"
      and keys: "fst ` set m = set files"
      and dist: "distinct (map fst m)"
      and mine: "\<forall>f \<in> set files. \<exists>r evs''. parseTypeScriptFile env f = (Returned r, evs'') \<and>
                                     map_of m f = Some r"
    by auto
  have "parseDirectory env dirPath exts = (Returned (Results m), evs @ evs')"
    by (simp add: parseDirectory_def assms chunk_loop_all run)
  moreover have "set (map fst m) = set files" using keys by simp
  ultimately show ?thesis using dist mine by (intro exI conjI)
qed

lemma directory_entries_failed:
  assumes "findFilesRecursively env dirPath exts = (Some e, files, evs)"
  shows "parseDirectory env dirPath exts =
           (Returned (Results
              [(dirPath, Inl (''Failed to parse directory '' @ dirPath @ '': '' @
                               errorDescription e))]), evs)"
  by (simp add: parseDirectory_def assms)

text \<open>
  C6, as the code has it. When the enumeration of the first copy completes and
  returns the list \<open>files\<close>, \<^verbatim>\<open>parseDirectory\<close> returns a mapping whose keys are
  exactly the enumerated files, each once, and the entry of each file is what
  \<^verbatim>\<open>parseTypeScriptFile\<close> returns for that file alone: the tree, or the error
  envelope when that file fails, whatever happens to the other files. When a
  directory read throws during the enumeration, \<^verbatim>\<open>parseDirectory\<close> returns the
  mapping with the one entry under the directory path, and no entry for the files
  enumerated before the failure.
\<close>

theorem directory_entries:
  "(\<forall>files evs. findFilesRecursively env dirPath exts = (None, files, evs) \<longrightarrow>
      (\<exists>m evs'. parseDirectory env dirPath exts = (Returned (Results m), evs') \<and>
         distinct (map fst m) \<and> set (map fst m) = set files \<and>
         (\<forall>f \<in> set files. \<exists>r evs''. parseTypeScriptFile env f = (Returned r, evs'') \<and>
                                   map_of m f = Some r))) \<and>
   (\<forall>e files evs. findFilesRecursively env dirPath exts = (Some e, files, evs) \<longrightarrow>
      parseDirectory env dirPath exts =
        (Returned (Results
           [(dirPath, Inl (''Failed to parse directory '' @ dirPath @ '': '' @
                            errorDescription e))]), evs))"
  using directory_entries_complete directory_entries_failed by blast

theorem directory_entries_witness:
  "findFilesRecursively exampleEnv ''proj'' [''.ts'', ''.tsx''] =
     (None, [''proj/a.ts'', ''proj/b.ts''], [Readdir ''proj'']) \<and>
   (\<exists>m evs. parseDirectory exampleEnv ''proj'' [''.ts'', ''.tsx''] = (Returned (Results m), evs) \<and>
      distinct (map fst m) \<and> set (map fst m) = {''proj/a.ts'', ''proj/b.ts''} \<and>
      map_of m ''proj/a.ts'' =
        Some (Inr (createNodeFromSourceFile (path_basename exampleEnv) sampleFile)) \<and>
      map_of m ''proj/b.ts'' = Some (Inl ''Failed to parse proj/b.ts: boom'')) \<and>
   findFilesRecursively exampleEnv ''proj/a.ts'' [''.ts'', ''.tsx''] =
     (Some (ENOTDIR ''scandir'' ''proj/a.ts''), [], [Readdir ''proj/a.ts'']) \<and>
   parseDirectory exampleEnv ''proj/a.ts'' [''.ts'', ''.tsx''] =
     (Returned (Results
        [(''proj/a.ts'', Inl (''Failed to parse directory proj/a.ts: '' @
                             errorDescription (ENOTDIR ''scandir'' ''proj/a.ts'')))]),
      [Readdir ''proj/a.ts''])"
proof -
  have enum: "findFilesRecursively exampleEnv ''proj'' [''.ts'', ''.tsx''] =
                (None, [''proj/a.ts'', ''proj/b.ts''], [Readdir ''proj''])"
    by (simp add: findFilesRecursively_def exampleEnv_def EXCLUDED_DIRS_def endsWith_def)
  have fail: "findFilesRecursively exampleEnv ''proj/a.ts'' [''.ts'', ''.tsx''] =
                (Some (ENOTDIR ''scandir'' ''proj/a.ts''), [], [Readdir ''proj/a.ts''])"
    by (simp add: findFilesRecursively_def exampleEnv_def)
  have a: "parseTypeScriptFile exampleEnv ''proj/a.ts'' =
             (Returned (Inr (createNodeFromSourceFile (path_basename exampleEnv) sampleFile)),
              [AddSourceFile ''proj/a.ts''])"
    by (simp add: parseTypeScriptFile_cases) (simp add: exampleEnv_def)
  have b: "parseTypeScriptFile exampleEnv ''proj/b.ts'' =
             (Returned (Inl ''Failed to parse proj/b.ts: boom''), [AddSourceFile ''proj/b.ts''])"
    by (simp add: parseTypeScriptFile_cases) (simp add: exampleEnv_def)
  from directory_entries [of exampleEnv "''proj''" "[''.ts'', ''.tsx'']"] enum obtain m evs'
    where "parseDirectory exampleEnv ''proj'' [''.ts'', ''.tsx''] = (Returned (Results m), evs')"
      and "distinct (map fst m)"
      and "set (map fst m) = set [''proj/a.ts'', ''proj/b.ts'']"
      and "\<forall>f \<in> set [''proj/a.ts'', ''proj/b.ts''].
             \<exists>r evs''. parseTypeScriptFile exampleEnv f = (Returned r, evs'') \<and>
                        map_of m f = Some r"
    by blast
  with a b have "parseDirectory exampleEnv ''proj'' [''.ts'', ''.tsx''] = (Returned (Results m), evs') \<and>
      distinct (map fst m) \<and> set (map fst m) = {''proj/a.ts'', ''proj/b.ts''} \<and>
      map_of m ''proj/a.ts'' =
        Some (Inr (createNodeFromSourceFile (path_basename exampleEnv) sampleFile)) \<and>
      map_of m ''proj/b.ts'' = Some (Inl ''Failed to parse proj/b.ts: boom'')"
    by simp
  then have first: "\<exists>m evs. parseDirectory exampleEnv ''proj'' [''.ts'', ''.tsx''] =
        (Returned (Results m), evs) \<and>
      distinct (map fst m) \<and> set (map fst m) = {''proj/a.ts'', ''proj/b.ts''} \<and>
      map_of m ''proj/a.ts'' =
        Some (Inr (createNodeFromSourceFile (path_basename exampleEnv) sampleFile)) \<and>
      map_of m ''proj/b.ts'' = Some (Inl ''Failed to parse proj/b.ts: boom'')"
    by blast
  from directory_entries [of exampleEnv "''proj/a.ts''" "[''.ts'', ''.tsx'']"] fail
  have second: "parseDirectory exampleEnv ''proj/a.ts'' [''.ts'', ''.tsx''] =
     (Returned (Results
        [(''proj/a.ts'', Inl (''Failed to parse directory proj/a.ts: '' @
                             errorDescription (ENOTDIR ''scandir'' ''proj/a.ts'')))]),
      [Readdir ''proj/a.ts''])"
    by simp
  from enum first fail second show ?thesis by (intro conjI)
qed

text \<open>
  C6 as stated fails: \<^verbatim>\<open>lock\<close> is a directory, its file \<^verbatim>\<open>lock/a.ts\<close> is
  enumerated, the read of its sub-directory \<^verbatim>\<open>lock/private\<close> throws, and the result
  has the single key \<^verbatim>\<open>lock\<close>: no entry for the enumerated file.
\<close>

theorem unreadable_subdirectory_drops_entries:
  "\<not> noDirectoryAt lockedEnv ''lock'' \<and>
   findFilesRecursively lockedEnv ''lock'' [''.ts'', ''.tsx''] =
     (Some (EACCES ''scandir'' ''lock/private''), [''lock/a.ts''],
      [Readdir ''lock'', Readdir ''lock/private'']) \<and>
   parseDirectory lockedEnv ''lock'' [''.ts'', ''.tsx''] =
     (Returned (Results
        [(''lock'', Inl (''Failed to parse directory lock: '' @
                        errorDescription (EACCES ''scandir'' ''lock/private'')))]),
      [Readdir ''lock'', Readdir ''lock/private'']) \<and>
   map_of [(''lock'', Inl (''Failed to parse directory lock: '' @
                          errorDescription (EACCES ''scandir'' ''lock/private'')))]
     ''lock/a.ts'' = (None :: FileResult option)"
proof -
  have enum: "findFilesRecursively lockedEnv ''lock'' [''.ts'', ''.tsx''] =
     (Some (EACCES ''scandir'' ''lock/private''), [''lock/a.ts''],
      [Readdir ''lock'', Readdir ''lock/private''])"
    by (simp add: findFilesRecursively_def lockedEnv_def exampleEnv_def EXCLUDED_DIRS_def
        endsWith_def)
  have "\<not> noDirectoryAt lockedEnv ''lock''"
    by (simp add: noDirectoryAt_def lockedEnv_def exampleEnv_def)
  with enum show ?thesis
    by (simp add: directory_entries_failed [OF enum])
qed

end
